theory Spec2Isabelle
  imports Complex_Main
begin

section \<open>Exceptions, output and sequencing\<close>

text \<open>
  The Python exceptions that the program raises, catches or receives from its
  libraries. Each carries the text that \<open>str(e)\<close> gives. \<open>KeyboardInterrupt\<close> and
  \<open>SystemExit\<close> derive from \<open>BaseException\<close> only, so an \<open>except Exception\<close> clause does
  not catch them; every other constructor is a subclass of \<open>Exception\<close>.
\<close>

datatype exn =
    FileNotFoundError string
  | FileExistsError string
  | IsADirectoryError string
  | NotADirectoryError string
  | PermissionError string
  | OSError string
  | UnicodeDecodeError string
  | JSONDecodeError string
  | CsvError string
  | TypeError string
  | ValueError string
  | RuntimeError string
  | TimeoutException string
  | WebDriverException string
  | EOFError string
  | KeyboardInterrupt
  | SystemExit

fun is_Exception :: "exn \<Rightarrow> bool" where
  "is_Exception KeyboardInterrupt = False"
| "is_Exception SystemExit = False"
| "is_Exception _ = True"

fun is_FileNotFoundError :: "exn \<Rightarrow> bool" where
  "is_FileNotFoundError (FileNotFoundError _) = True"
| "is_FileNotFoundError _ = False"


fun is_KeyboardInterrupt :: "exn \<Rightarrow> bool" where
  "is_KeyboardInterrupt KeyboardInterrupt = True"
| "is_KeyboardInterrupt _ = False"

fun exn_str :: "exn \<Rightarrow> string" where
  "exn_str (FileNotFoundError m) = m"
| "exn_str (FileExistsError m) = m"
| "exn_str (IsADirectoryError m) = m"
| "exn_str (NotADirectoryError m) = m"
| "exn_str (PermissionError m) = m"
| "exn_str (OSError m) = m"
| "exn_str (UnicodeDecodeError m) = m"
| "exn_str (JSONDecodeError m) = m"
| "exn_str (CsvError m) = m"
| "exn_str (TypeError m) = m"
| "exn_str (ValueError m) = m"
| "exn_str (RuntimeError m) = m"
| "exn_str (TimeoutException m) = m"
| "exn_str (WebDriverException m) = m"
| "exn_str (EOFError m) = m"
| "exn_str KeyboardInterrupt = []"
| "exn_str SystemExit = []"

text \<open>
  A statement of the program is a function from the state to an outcome and the
  state it leaves: \<open>Inl e\<close> when it raises \<open>e\<close>, \<open>Inr v\<close> when it returns \<open>v\<close>.
\<close>

type_synonym ('a, 's) prog = "'s \<Rightarrow> (exn + 'a) \<times> 's"

definition ret :: "'a \<Rightarrow> ('a, 's) prog" where
  "ret v s = (Inr v, s)"

definition raise :: "exn \<Rightarrow> ('a, 's) prog" where
  "raise e s = (Inl e, s)"

definition then_do :: "('a, 's) prog \<Rightarrow> ('a \<Rightarrow> ('b, 's) prog) \<Rightarrow> ('b, 's) prog" where
  "then_do m f s = (case m s of (Inl e, s') \<Rightarrow> (Inl e, s') | (Inr v, s') \<Rightarrow> f v s')"

text \<open>
  \<open>try: m except C1 as e: h1 e except C2 as e: h2 e ...\<close>: the clauses are tried in
  order, each given by the recogniser of its exception class and its handler. An
  exception raised inside a handler is not offered to the later clauses.
\<close>

fun dispatch :: "((exn \<Rightarrow> bool) \<times> (exn \<Rightarrow> ('a, 's) prog)) list \<Rightarrow> exn \<Rightarrow> ('a, 's) prog" where
  "dispatch [] e s = (Inl e, s)"
| "dispatch ((C, h) # hs) e s = (if C e then h e s else dispatch hs e s)"

definition try_except ::
  "('a, 's) prog \<Rightarrow> ((exn \<Rightarrow> bool) \<times> (exn \<Rightarrow> ('a, 's) prog)) list \<Rightarrow> ('a, 's) prog" where
  "try_except m hs s =
     (case m s of
        (Inl e, s') \<Rightarrow> dispatch hs e s'
      | (Inr v, s') \<Rightarrow> (Inr v, s'))"

text \<open>
  \<open>try: m finally: c\<close>: the clean-up runs on every exit of \<open>m\<close>; an exception of the
  clean-up replaces the outcome of \<open>m\<close>.
\<close>

definition try_finally :: "('a, 's) prog \<Rightarrow> (unit, 's) prog \<Rightarrow> ('a, 's) prog" where
  "try_finally m c s =
     (case m s of (r, s') \<Rightarrow>
        (case c s' of (Inl e, s'') \<Rightarrow> (Inl e, s'') | (Inr _, s'') \<Rightarrow> (r, s'')))"

subsection \<open>Decimal rendering of numbers in f-strings\<close>

definition digit :: "nat \<Rightarrow> char" where
  "digit d = ''0123456789'' ! (d mod 10)"

fun show_nat :: "nat \<Rightarrow> string" where
  "show_nat n = (if n < 10 then [digit n] else show_nat (n div 10) @ [digit n])"

declare show_nat.simps [simp del]

definition show_int :: "int \<Rightarrow> string" where
  "show_int i = (if i < 0 then CHR ''-'' # show_nat (nat (- i)) else show_nat (nat i))"

section \<open>The browser automation driver\<close>

text \<open>
  Selenium and the browser it drives are outside the repository. They are a
  parameter of the model: a record of operations over a browser state \<open>'b\<close>, each of
  which returns or raises. \<open>wait_presence\<close> and \<open>wait_presence_all\<close> stand for
  \<open>WebDriverWait(driver, timeout).until(EC.presence_of_...)\<close>, which raises
  \<open>TimeoutException\<close> when the landmark does not appear in time.
\<close>

type_synonym session = nat
type_synonym element = nat
type_synonym path = string

datatype locator = ByTagName string | ByName string | ById string | ByCssSelector string

datatype keys = KeyText string | KeyReturn

record chrome_options =
  binary_location :: string
  arguments :: "string list"
  experimental_bool :: "(string \<times> bool) list"
  experimental_list :: "(string \<times> string list) list"

record 'b selenium =
  chrome_new :: "path \<Rightarrow> chrome_options \<Rightarrow> 'b \<Rightarrow> (exn + session) \<times> 'b"
  drv_get :: "session \<Rightarrow> string \<Rightarrow> 'b \<Rightarrow> (exn + unit) \<times> 'b"
  wait_presence :: "session \<Rightarrow> nat \<Rightarrow> locator \<Rightarrow> 'b \<Rightarrow> (exn + element) \<times> 'b"
  wait_presence_all :: "session \<Rightarrow> nat \<Rightarrow> locator \<Rightarrow> 'b \<Rightarrow> (exn + element list) \<times> 'b"
  el_clear :: "session \<Rightarrow> element \<Rightarrow> 'b \<Rightarrow> (exn + unit) \<times> 'b"
  el_send_keys :: "session \<Rightarrow> element \<Rightarrow> keys \<Rightarrow> 'b \<Rightarrow> (exn + unit) \<times> 'b"
  el_get_attribute :: "session \<Rightarrow> element \<Rightarrow> string \<Rightarrow> 'b \<Rightarrow> (exn + string option) \<times> 'b"
  drv_quit :: "session \<Rightarrow> 'b \<Rightarrow> (exn + unit) \<times> 'b"

datatype event =
    EvChrome path chrome_options
  | EvGet session string
  | EvWait session locator
  | EvWaitAll session locator
  | EvClear session element
  | EvSendKeys session element keys
  | EvGetAttribute session element string
  | EvQuit session

subsection \<open>The file system\<close>

text \<open>
  Files hold text, directories are a set of paths. The operating system may also
  refuse an operation on an existing file or directory (permissions, a failing
  device, bytes that are not UTF-8): \<open>io_fault\<close> gives the exception it raises then.
\<close>

datatype io_op = OpMkdir | OpRead | OpWrite

record fs =
  files :: "path \<rightharpoonup> string"
  dirs :: "path set"
  io_fault :: "io_op \<Rightarrow> path \<Rightarrow> exn option"

text \<open>
  The state of a run: the browser, the driver commands issued so far (latest last),
  the lines printed so far (latest last), the file system, the number of clock
  readings taken, the answers still to come on standard input, and the attribute
  \<open>_keep_open\<close> of the \<open>ChromeDriverManager\<close> instance (\<open>None\<close> until it is first set).
\<close>

record 'b world =
  browser :: 'b
  calls :: "event list"
  out :: "string list"
  fsys :: fs
  tick :: nat
  stdin :: "(exn + string) list"
  mgr_keep_open :: "bool option"

definition print :: "string \<Rightarrow> (unit, ('b, 'x) world_scheme) prog" where
  "print line w = (Inr (), w\<lparr>out := out w @ [line]\<rparr>)"

definition command :: "event \<Rightarrow> ('b \<Rightarrow> (exn + 'a) \<times> 'b) \<Rightarrow> ('a, ('b, 'x) world_scheme) prog" where
  "command ev op w =
     (case op (browser w) of (r, b') \<Rightarrow> (r, w\<lparr>browser := b', calls := calls w @ [ev]\<rparr>))"

section \<open>Configuration (config.py)\<close>

definition YOUTUBE_URL :: string where
  "YOUTUBE_URL = ''https://www.youtube.com''"

definition DEFAULT_SEARCH_TERM :: string where
  "DEFAULT_SEARCH_TERM = ''What's New''"

definition PAGE_LOAD_TIMEOUT :: nat where
  "PAGE_LOAD_TIMEOUT = 10"

definition ELEMENT_WAIT_TIMEOUT :: nat where
  "ELEMENT_WAIT_TIMEOUT = 10"

section \<open>YouTubeAutomation (youtube_automation.py)\<close>

text \<open>
  An instance holds the driver and the wait built from it in \<open>__init__\<close>.
\<close>

record youtube =
  yt_driver :: session
  yt_wait :: nat

definition YouTubeAutomation :: "session \<Rightarrow> youtube" where
  "YouTubeAutomation driver = \<lparr>yt_driver = driver, yt_wait = ELEMENT_WAIT_TIMEOUT\<rparr>"

definition navigate_to_youtube :: "'b selenium \<Rightarrow> youtube \<Rightarrow> (unit, ('b, 'x) world_scheme) prog" where
  "navigate_to_youtube D self =
     then_do (print ''[INFO] Navigating to YouTube...'') (\<lambda>_.
     then_do (command (EvGet (yt_driver self) YOUTUBE_URL)
                (drv_get D (yt_driver self) YOUTUBE_URL)) (\<lambda>_.
     then_do (command (EvWait (yt_driver self) (ByTagName ''body''))
                (wait_presence D (yt_driver self) (yt_wait self) (ByTagName ''body''))) (\<lambda>_.
     print ''[SUCCESS] YouTube loaded successfully'')))"

definition search :: "'b selenium \<Rightarrow> youtube \<Rightarrow> string \<Rightarrow> (bool, ('b, 'x) world_scheme) prog" where
  "search D self search_term =
     try_except
       (then_do (print (''[INFO] Searching for: '' @ search_term)) (\<lambda>_.
        then_do (command (EvWait (yt_driver self) (ByName ''search_query''))
                   (wait_presence D (yt_driver self) (yt_wait self) (ByName ''search_query''))) (\<lambda>search_box.
        then_do (command (EvClear (yt_driver self) search_box)
                   (el_clear D (yt_driver self) search_box)) (\<lambda>_.
        then_do (command (EvSendKeys (yt_driver self) search_box (KeyText search_term))
                   (el_send_keys D (yt_driver self) search_box (KeyText search_term))) (\<lambda>_.
        then_do (command (EvSendKeys (yt_driver self) search_box KeyReturn)
                   (el_send_keys D (yt_driver self) search_box KeyReturn)) (\<lambda>_.
        then_do (command (EvWait (yt_driver self) (ById ''contents''))
                   (wait_presence D (yt_driver self) (yt_wait self) (ById ''contents''))) (\<lambda>_.
        then_do (print (''[SUCCESS] Search completed for: '' @ search_term)) (\<lambda>_.
        ret True))))))))
       [(is_Exception,
         \<lambda>e. then_do (print (''[ERROR] Search failed: '' @ exn_str e)) (\<lambda>_. ret False))]"

text \<open>
  \<open>video_elements[:max_results]\<close>: a Python slice; a negative bound counts from the
  end of the list.
\<close>

definition slice_to :: "int \<Rightarrow> 'a list \<Rightarrow> 'a list" where
  "slice_to m xs = (if 0 \<le> m then take (nat m) xs else take (length xs - nat (- m)) xs)"

text \<open>The \<open>for\<close> loop of \<open>get_video_titles\<close>, with the list \<open>titles\<close> built so far.\<close>

fun collect_titles ::
  "'b selenium \<Rightarrow> session \<Rightarrow> element list \<Rightarrow> string list \<Rightarrow> (string list, ('b, 'x) world_scheme) prog" where
  "collect_titles D drv [] titles w = (Inr titles, w)"
| "collect_titles D drv (el # els) titles w =
     (case command (EvGetAttribute drv el ''title'') (el_get_attribute D drv el ''title'') w of
        (Inl e, w') \<Rightarrow> (Inl e, w')
      | (Inr title, w') \<Rightarrow>
          (case title of
             None \<Rightarrow> collect_titles D drv els titles w'
           | Some t \<Rightarrow>
               if t \<noteq> [] then collect_titles D drv els (titles @ [t]) w'
               else collect_titles D drv els titles w'))"

definition get_video_titles :: "'b selenium \<Rightarrow> youtube \<Rightarrow> int \<Rightarrow> (string list, ('b, 'x) world_scheme) prog" where
  "get_video_titles D self max_results =
     try_except
       (then_do (command (EvWaitAll (yt_driver self) (ByCssSelector ''a#video-title''))
                   (wait_presence_all D (yt_driver self) (yt_wait self) (ByCssSelector ''a#video-title''))) (\<lambda>video_elements.
        then_do (collect_titles D (yt_driver self) (slice_to max_results video_elements) []) (\<lambda>titles.
        then_do (print (''[INFO] Found '' @ show_nat (length titles) @ '' video titles'')) (\<lambda>_.
        ret titles))))
       [(is_Exception,
         \<lambda>e. then_do (print (''[ERROR] Failed to get video titles: '' @ exn_str e)) (\<lambda>_. ret []))]"

text \<open>The numbered lines \<open>f"{i}. {title}"\<close> for \<open>enumerate(titles, i)\<close>.\<close>

fun print_numbered :: "nat \<Rightarrow> string list \<Rightarrow> (unit, ('b, 'x) world_scheme) prog" where
  "print_numbered i [] w = (Inr (), w)"
| "print_numbered i (title # titles) w =
     (case print (show_nat i @ ''. '' @ title) w of
        (Inl e, w') \<Rightarrow> (Inl e, w')
      | (Inr _, w') \<Rightarrow> print_numbered (Suc i) titles w')"

definition search_tech_news ::
  "'b selenium \<Rightarrow> youtube \<Rightarrow> string option \<Rightarrow> (string list, ('b, 'x) world_scheme) prog" where
  "search_tech_news D self search_term_arg =
     (let search_term = (case search_term_arg of None \<Rightarrow> DEFAULT_SEARCH_TERM | Some t \<Rightarrow> t) in
      then_do (navigate_to_youtube D self) (\<lambda>_.
      then_do (search D self search_term) (\<lambda>success.
      if success then
        then_do (get_video_titles D self 10) (\<lambda>titles.
        then_do (if titles \<noteq> [] then
                   then_do (print (CHR 0x0A # ''=== Search Results for '' @ [CHR 0x27] @ search_term @ [CHR 0x27] @ '' ==='')) (\<lambda>_.
                   then_do (print_numbered 1 titles) (\<lambda>_.
                   print (replicate 40 CHR ''='')))
                 else ret ()) (\<lambda>_.
        ret titles))
      else ret [])))"

section \<open>Paths and file system operations\<close>

text \<open>
  A \<open>pathlib.Path\<close> is its POSIX text, taken as already normalised (no doubled or
  trailing separator). \<open>path_join a b\<close> is \<open>a / b\<close>, \<open>parent\<close> and \<open>path_name\<close> are the
  attributes \<open>.parent\<close> and \<open>.name\<close>.
\<close>

definition is_absolute :: "path \<Rightarrow> bool" where
  "is_absolute p = (case p of [] \<Rightarrow> False | c # _ \<Rightarrow> c = CHR ''/'')"

definition path_join :: "path \<Rightarrow> string \<Rightarrow> path" where
  "path_join a b =
     (if is_absolute b then b
      else if b = [] then a
      else if a = [] \<or> a = ''.'' then b
      else if last a = CHR ''/'' then a @ b
      else a @ ''/'' @ b)"

definition path_name :: "path \<Rightarrow> string" where
  "path_name p = rev (takeWhile (\<lambda>c. c \<noteq> CHR ''/'') (rev p))"

definition parent :: "path \<Rightarrow> path" where
  "parent p =
     (let d = rev (dropWhile (\<lambda>c. c \<noteq> CHR ''/'') (rev p)) in
      if d = [] then ''.'' else if d = ''/'' then ''/'' else butlast d)"

function ancestors :: "path \<Rightarrow> path list" where
  "ancestors p = (if length (parent p) < length p then parent p # ancestors (parent p) else [])"
  by pat_completeness auto
termination
  by (relation "measure length") auto

declare ancestors.simps [simp del]

definition path_exists :: "path \<Rightarrow> fs \<Rightarrow> bool" where
  "path_exists p s = (files s p \<noteq> None \<or> p \<in> dirs s)"


text \<open>
  Writing the whole text of a file: \<open>Path.write_text\<close>, or what \<open>open(p, 'w')\<close> and
  the writes up to \<open>close\<close> leave. Opening alone leaves the empty text.
\<close>

definition fs_write :: "path \<Rightarrow> string \<Rightarrow> fs \<Rightarrow> exn + fs" where
  "fs_write p text s =
     (case io_fault s OpWrite p of
        Some e \<Rightarrow> Inl e
      | None \<Rightarrow>
          if p \<in> dirs s then Inl (IsADirectoryError p)
          else if parent p \<notin> dirs s then Inl (FileNotFoundError p)
          else Inr (s\<lparr>files := (files s)(p \<mapsto> text)\<rparr>))"

text \<open>\<open>Path.mkdir(parents=True, exist_ok=True)\<close>.\<close>

definition fs_mkdir_parents :: "path \<Rightarrow> fs \<Rightarrow> exn + fs" where
  "fs_mkdir_parents q s =
     (case io_fault s OpMkdir q of
        Some e \<Rightarrow> Inl e
      | None \<Rightarrow>
          if files s q \<noteq> None then Inl (FileExistsError q)
          else if list_ex (\<lambda>a. files s a \<noteq> None) (ancestors q) then Inl (NotADirectoryError q)
          else Inr (s\<lparr>dirs := dirs s \<union> insert q (set (ancestors q))\<rparr>))"


definition fs_update :: "(fs \<Rightarrow> exn + fs) \<Rightarrow> (unit, ('b, 'x) world_scheme) prog" where
  "fs_update f w = (case f (fsys w) of Inl e \<Rightarrow> (Inl e, w) | Inr s' \<Rightarrow> (Inr (), w\<lparr>fsys := s'\<rparr>))"

section \<open>Python values and the json and csv libraries\<close>

text \<open>
  The values that a \<open>Dict[str, Any]\<close> is built from, without floats. A dictionary is
  the list of its items in insertion order, with string keys; \<open>PyObject t\<close> is an
  object of a type \<open>t\<close> that the JSON encoder does not know.
\<close>

datatype pyval =
    PyNone
  | PyBool bool
  | PyInt int
  | PyStr string
  | PyList "pyval list"
  | PyTuple "pyval list"
  | PyDict "(string \<times> pyval) list"
  | PyObject string

datatype json =
    JNull
  | JBool bool
  | JNum int
  | JStr string
  | JArr "json list"
  | JObj "(string \<times> json) list"

fun collect :: "(exn + 'a) list \<Rightarrow> exn + 'a list" where
  "collect [] = Inr []"
| "collect (Inl e # rs) = Inl e"
| "collect (Inr v # rs) = (case collect rs of Inl e \<Rightarrow> Inl e | Inr vs \<Rightarrow> Inr (v # vs))"

text \<open>
  The conversion table of \<open>json.dump\<close>: lists and tuples both become arrays, a
  dictionary becomes an object with its keys in order, an unknown object raises
  \<open>TypeError\<close>.
\<close>

fun to_json :: "pyval \<Rightarrow> exn + json" where
  "to_json PyNone = Inr JNull"
| "to_json (PyBool b) = Inr (JBool b)"
| "to_json (PyInt i) = Inr (JNum i)"
| "to_json (PyStr s) = Inr (JStr s)"
| "to_json (PyList xs) = (case collect (map to_json xs) of Inl e \<Rightarrow> Inl e | Inr js \<Rightarrow> Inr (JArr js))"
| "to_json (PyTuple xs) = (case collect (map to_json xs) of Inl e \<Rightarrow> Inl e | Inr js \<Rightarrow> Inr (JArr js))"
| "to_json (PyDict kvs) =
     (case collect (map (\<lambda>kv. case to_json (snd kv) of Inl e \<Rightarrow> Inl e | Inr j \<Rightarrow> Inr (fst kv, j)) kvs) of
        Inl e \<Rightarrow> Inl e | Inr kjs \<Rightarrow> Inr (JObj kjs))"
| "to_json (PyObject t) = Inl (TypeError (''Object of type '' @ t @ '' is not JSON serializable''))"





text \<open>
  The text layer of the two libraries is a parameter: \<open>json_render indent j\<close> is the
  text \<open>json.dump\<close> writes for a document, \<open>json_partial indent d\<close> the text it has
  written when the encoder fails on \<open>d\<close>, \<open>json_parse\<close> the parser of \<open>json.load\<close>
  (raising \<open>JSONDecodeError\<close>), and \<open>csv_parse\<close> is \<open>list(csv.DictReader(f))\<close>.
\<close>

record pylib =
  json_render :: "int \<Rightarrow> json \<Rightarrow> string"
  json_partial :: "int \<Rightarrow> pyval \<Rightarrow> string"
  json_parse :: "string \<Rightarrow> exn + json"
  csv_parse :: "string \<Rightarrow> exn + (string \<times> string) list list"

subsection \<open>Writing CSV rows (csv.DictWriter, excel dialect)\<close>

definition csv_special :: "char \<Rightarrow> bool" where
  "csv_special c = (c = CHR '','' \<or> c = CHR 0x22 \<or> c = CHR 0x0D \<or> c = CHR 0x0A)"

definition csv_field :: "string \<Rightarrow> string" where
  "csv_field f =
     (if list_ex csv_special f
      then CHR 0x22 # concat (map (\<lambda>c. if c = CHR 0x22 then [CHR 0x22, CHR 0x22] else [c]) f) @ [CHR 0x22]
      else f)"

fun join_comma :: "string list \<Rightarrow> string" where
  "join_comma [] = []"
| "join_comma [f] = f"
| "join_comma (f # fs) = f @ '','' @ join_comma fs"

text \<open>A row of one empty field is written as a pair of quotes.\<close>

definition csv_line :: "string list \<Rightarrow> string" where
  "csv_line cells =
     (if cells = [[]] then [CHR 0x22, CHR 0x22] else join_comma (map csv_field cells))
     @ [CHR 0x0D, CHR 0x0A]"

text \<open>
  \<open>DictWriter._dict_to_list\<close> with \<open>extrasaction='raise'\<close> and \<open>restval=''\<close>. The
  message lists the offending keys in the order of the row, where Python lists a
  set.
\<close>

definition dict_to_list :: "string list \<Rightarrow> (string \<times> string) list \<Rightarrow> exn + string list" where
  "dict_to_list fieldnames rowdict =
     (let wrong_fields = filter (\<lambda>k. k \<notin> set fieldnames) (map fst rowdict) in
      if wrong_fields \<noteq> []
      then Inl (ValueError (''dict contains fields not in fieldnames: '' @ join_comma wrong_fields))
      else Inr (map (\<lambda>key. case map_of rowdict key of None \<Rightarrow> [] | Some v \<Rightarrow> v) fieldnames))"

text \<open>
  \<open>writerows\<close>: the rows are converted one at a time, so the text of the rows before
  a bad one is already written when the \<open>ValueError\<close> is raised.
\<close>

fun writerows :: "string list \<Rightarrow> (string \<times> string) list list \<Rightarrow> string \<Rightarrow> string \<times> exn option" where
  "writerows fieldnames [] written = (written, None)"
| "writerows fieldnames (row # rows) written =
     (case dict_to_list fieldnames row of
        Inl e \<Rightarrow> (written, Some e)
      | Inr cells \<Rightarrow> writerows fieldnames rows (written @ csv_line cells))"

section \<open>FileHandler (utils.py)\<close>

record file_handler =
  base_path :: path

definition resolve_path :: "file_handler \<Rightarrow> path \<Rightarrow> path" where
  "resolve_path self file_path =
     (if is_absolute file_path then file_path else path_join (base_path self) file_path)"


definition write_text :: "file_handler \<Rightarrow> path \<Rightarrow> string \<Rightarrow> (bool, ('b, 'x) world_scheme) prog" where
  "write_text self file_path content =
     (let full_path = resolve_path self file_path in
      try_except
        (then_do (fs_update (fs_mkdir_parents (parent full_path))) (\<lambda>_.
         then_do (fs_update (fs_write full_path content)) (\<lambda>_.
         then_do (print (''[INFO] File written: '' @ full_path)) (\<lambda>_.
         ret True))))
        [(is_Exception,
          \<lambda>e. then_do (print (''[ERROR] Failed to write '' @ full_path @ '': '' @ exn_str e)) (\<lambda>_. ret False))])"


definition write_json ::
  "pylib \<Rightarrow> file_handler \<Rightarrow> path \<Rightarrow> pyval \<Rightarrow> int \<Rightarrow> (bool, ('b, 'x) world_scheme) prog" where
  "write_json L self file_path data indent =
     (let full_path = resolve_path self file_path in
      try_except
        (then_do (fs_update (fs_mkdir_parents (parent full_path))) (\<lambda>_.
         then_do (fs_update (fs_write full_path [])) (\<lambda>_.
         then_do (case to_json data of
                    Inl e \<Rightarrow> then_do (fs_update (fs_write full_path (json_partial L indent data))) (\<lambda>_. raise e)
                  | Inr j \<Rightarrow> fs_update (fs_write full_path (json_render L indent j))) (\<lambda>_.
         then_do (print (''[INFO] JSON file written: '' @ full_path)) (\<lambda>_.
         ret True)))))
        [(is_Exception,
          \<lambda>e. then_do (print (''[ERROR] Failed to write JSON '' @ full_path @ '': '' @ exn_str e)) (\<lambda>_. ret False))])"


definition write_csv ::
  "file_handler \<Rightarrow> path \<Rightarrow> (string \<times> string) list list \<Rightarrow> string list option
     \<Rightarrow> (bool, ('b, 'x) world_scheme) prog" where
  "write_csv self file_path data fieldnames_arg =
     (if data = [] then
        then_do (print ''[WARNING] No data to write to CSV'') (\<lambda>_. ret False)
      else
        (let full_path = resolve_path self file_path in
         try_except
           (then_do (fs_update (fs_mkdir_parents (parent full_path))) (\<lambda>_.
            let fieldnames = (case fieldnames_arg of
                                None \<Rightarrow> map fst (hd data)
                              | Some names \<Rightarrow> if names \<noteq> [] then names else map fst (hd data)) in
            then_do (fs_update (fs_write full_path [])) (\<lambda>_.
            then_do (case writerows fieldnames data (csv_line fieldnames) of
                       (written, Some e) \<Rightarrow> then_do (fs_update (fs_write full_path written)) (\<lambda>_. raise e)
                     | (written, None) \<Rightarrow> fs_update (fs_write full_path written)) (\<lambda>_.
            then_do (print (''[INFO] CSV file written: '' @ full_path)) (\<lambda>_.
            ret True)))))
           [(is_Exception,
             \<lambda>e. then_do (print (''[ERROR] Failed to write CSV '' @ full_path @ '': '' @ exn_str e)) (\<lambda>_. ret False))]))"

definition file_exists :: "file_handler \<Rightarrow> path \<Rightarrow> (bool, ('b, 'x) world_scheme) prog" where
  "file_exists self file_path w = (Inr (path_exists (resolve_path self file_path) (fsys w)), w)"


section \<open>The host and the project configuration (config.py)\<close>

text \<open>
  The package \<open>appmanager\<close> is not part of these sources; when it can be imported it
  supplies the platform name and three locations. The host also fixes the
  platform reported by the standard library, the environment variables, the home
  and working directories, the successive readings of the clock, and the local
  time format of \<open>strftime("%Y-%m-%d %H:%M:%S")\<close>.
\<close>

record appmanager_config =
  am_platform :: string
  CHROME_FOR_TESTING_DIR :: path
  CHROMEDRIVER_PATH :: path
  APP_DATA_DIR :: path

record host =
  appmanager :: "appmanager_config option"
  platform_system :: string
  environ :: "string \<rightharpoonup> string"
  home :: path
  cwd :: path
  clock :: "nat \<Rightarrow> real"
  strftime :: "real \<Rightarrow> string"

record config =
  PROJECT_ROOT :: path
  PROJECT_DIR :: path
  PROJECT_NAME :: string
  VERSION :: string

definition DEFAULT_PROFILE_NAME :: "config \<Rightarrow> string" where
  "DEFAULT_PROFILE_NAME cfg = PROJECT_NAME cfg @ ''_profile''"

text \<open>\<open>str.lower\<close> on ASCII letters.\<close>

definition lower_char :: "char \<Rightarrow> char" where
  "lower_char c =
     (case map_of (zip ''ABCDEFGHIJKLMNOPQRSTUVWXYZ'' ''abcdefghijklmnopqrstuvwxyz'') c of
        Some l \<Rightarrow> l | None \<Rightarrow> c)"

definition lower :: "string \<Rightarrow> string" where
  "lower s = map lower_char s"

text \<open>\<open>time.time()\<close> takes the next reading of the clock; \<open>int\<close> truncates towards zero.\<close>

definition time_time :: "host \<Rightarrow> (real, ('b, 'x) world_scheme) prog" where
  "time_time H w = (Inr (clock H (tick w)), w\<lparr>tick := Suc (tick w)\<rparr>)"

definition int_of_float :: "real \<Rightarrow> int" where
  "int_of_float t = (if 0 \<le> t then \<lfloor>t\<rfloor> else \<lceil>t\<rceil>)"

definition get_chrome_profile_path :: "host \<Rightarrow> config \<Rightarrow> exn + path" where
  "get_chrome_profile_path H cfg =
     (case appmanager H of
        Some app_config \<Rightarrow>
          Inr (path_join (path_join (APP_DATA_DIR app_config) ''ChromeProfiles'') (DEFAULT_PROFILE_NAME cfg))
      | None \<Rightarrow>
          (let system = platform_system H;
               project_name = lower (path_name (PROJECT_ROOT cfg));
               finish = (\<lambda>base_path.
                  Inr (path_join (path_join (path_join base_path project_name) ''ChromeProfiles'')
                         (DEFAULT_PROFILE_NAME cfg)))
           in
           if system = ''Windows'' then
             (case environ H ''LOCALAPPDATA'' of
                None \<Rightarrow> Inl (RuntimeError ''LOCALAPPDATA environment variable not found.'')
              | Some app_data \<Rightarrow>
                  if app_data = [] then Inl (RuntimeError ''LOCALAPPDATA environment variable not found.'')
                  else finish app_data)
           else if system = ''Linux'' then
             (case environ H ''XDG_DATA_HOME'' of
                None \<Rightarrow> finish (path_join (path_join (home H) ''.local'') ''share'')
              | Some xdg_data_home \<Rightarrow>
                  if xdg_data_home \<noteq> [] then finish xdg_data_home
                  else finish (path_join (path_join (home H) ''.local'') ''share''))
           else
             Inr (path_join (path_join (path_join (home H) (''.'' @ project_name)) ''ChromeProfiles'')
                    (DEFAULT_PROFILE_NAME cfg))))"

section \<open>ChromeDriverManager (chrome_driver.py)\<close>

text \<open>
  The instance holds the platform found by \<open>__init__\<close>; its attribute \<open>_keep_open\<close>
  changes during a run and is the field \<open>mgr_keep_open\<close> of the state.
\<close>

record chrome_driver_manager =
  mgr_platform :: string

definition get_platform :: "host \<Rightarrow> string" where
  "get_platform H =
     (case appmanager H of Some app_config \<Rightarrow> am_platform app_config | None \<Rightarrow> platform_system H)"

definition ChromeDriverManager :: "host \<Rightarrow> chrome_driver_manager" where
  "ChromeDriverManager H = \<lparr>mgr_platform = get_platform H\<rparr>"

definition get_chrome_paths :: "host \<Rightarrow> config \<Rightarrow> chrome_driver_manager \<Rightarrow> exn + path \<times> path" where
  "get_chrome_paths H cfg self =
     (case appmanager H of
        Some app_config \<Rightarrow>
          if mgr_platform self = ''Windows''
          then Inr (path_join (CHROME_FOR_TESTING_DIR app_config) ''chrome-win64/chrome.exe'',
                    CHROMEDRIVER_PATH app_config)
          else Inr (path_join (CHROME_FOR_TESTING_DIR app_config) ''chrome-linux64/chrome'',
                    CHROMEDRIVER_PATH app_config)
      | None \<Rightarrow>
          (let project_name = lower (path_name (PROJECT_ROOT cfg));
               finish = (\<lambda>base_path.
                  let chrome_dir = path_join (path_join base_path project_name) ''ChromeForTesting'' in
                  if mgr_platform self = ''Windows''
                  then Inr (path_join chrome_dir ''chrome-win64/chrome.exe'',
                            path_join chrome_dir ''chromedriver-win64/chromedriver.exe'')
                  else Inr (path_join chrome_dir ''chrome-linux64/chrome'',
                            path_join chrome_dir ''chromedriver-linux64/chromedriver''))
           in
           if mgr_platform self = ''Windows'' then
             (case environ H ''LOCALAPPDATA'' of
                None \<Rightarrow> Inl (RuntimeError ''LOCALAPPDATA environment variable not found.'')
              | Some app_data \<Rightarrow>
                  if app_data = [] then Inl (RuntimeError ''LOCALAPPDATA environment variable not found.'')
                  else finish app_data)
           else if mgr_platform self = ''Linux'' then
             (case environ H ''XDG_DATA_HOME'' of
                None \<Rightarrow> finish (path_join (path_join (home H) ''.local'') ''share'')
              | Some xdg_data_home \<Rightarrow>
                  if xdg_data_home \<noteq> [] then finish xdg_data_home
                  else finish (path_join (path_join (home H) ''.local'') ''share''))
           else
             (let chrome_dir = path_join (path_join (home H) (''.'' @ project_name)) ''ChromeForTesting'' in
              if mgr_platform self = ''Windows''
              then Inr (path_join chrome_dir ''chrome-win64/chrome.exe'',
                        path_join chrome_dir ''chromedriver-win64/chromedriver.exe'')
              else Inr (path_join chrome_dir ''chrome-linux64/chrome'',
                        path_join chrome_dir ''chromedriver-linux64/chromedriver''))))"

text \<open>The profile directory: the profile root joined with \<open>f"{profile_name}_{timestamp}"\<close>.\<close>

definition profile_dir :: "path \<Rightarrow> string \<Rightarrow> int \<Rightarrow> path" where
  "profile_dir profile_root profile_name timestamp =
     path_join profile_root (profile_name @ ''_'' @ show_int timestamp)"

definition build_options :: "chrome_driver_manager \<Rightarrow> path \<Rightarrow> path \<Rightarrow> bool \<Rightarrow> chrome_options" where
  "build_options self chrome_binary profile_path detach =
     \<lparr>binary_location = chrome_binary,
      arguments = [''--user-data-dir='' @ profile_path, ''--start-maximized'', ''--disable-infobars'',
                   ''--no-first-run'', ''--disable-default-apps'']
                  @ (if mgr_platform self = ''Linux'' then [''--no-sandbox''] else []),
      experimental_bool = (if detach then [(''detach'', True)] else []) @ [(''useAutomationExtension'', False)],
      experimental_list = [(''excludeSwitches'', [''enable-automation''])]\<rparr>"

definition create_driver ::
  "host \<Rightarrow> 'b selenium \<Rightarrow> config \<Rightarrow> chrome_driver_manager \<Rightarrow> string option \<Rightarrow> bool
     \<Rightarrow> (session, ('b, 'x) world_scheme) prog" where
  "create_driver H D cfg self profile_name_arg detach w =
     (let profile_name = (case profile_name_arg of None \<Rightarrow> DEFAULT_PROFILE_NAME cfg | Some n \<Rightarrow> n) in
      case get_chrome_paths H cfg self of
        Inl e \<Rightarrow> (Inl e, w)
      | Inr (chrome_binary, driver_path) \<Rightarrow>
          if \<not> path_exists chrome_binary (fsys w)
          then (Inl (FileNotFoundError (''Chrome binary not found at: '' @ chrome_binary)), w)
          else if \<not> path_exists driver_path (fsys w)
          then (Inl (FileNotFoundError (''ChromeDriver not found at: '' @ driver_path)), w)
          else
            then_do (time_time H) (\<lambda>t.
              let timestamp = int_of_float t in
              case get_chrome_profile_path H cfg of
                Inl e \<Rightarrow> raise e
              | Inr profile_root \<Rightarrow>
                  (let profile_path = profile_dir profile_root profile_name timestamp;
                       options = build_options self chrome_binary profile_path detach
                   in command (EvChrome driver_path options) (chrome_new D driver_path options))) w)"

subsection \<open>The generator of managed_driver\<close>

text \<open>
  \<open>getattr(self, '_keep_open', False)\<close>, and the \<open>finally\<close> clause for the value of the
  local variable \<open>driver\<close>. A driver object is always true.
\<close>

definition getattr_keep_open :: "('b, 'x) world_scheme \<Rightarrow> bool" where
  "getattr_keep_open w = (case mgr_keep_open w of None \<Rightarrow> False | Some b \<Rightarrow> b)"

definition cleanup :: "'b selenium \<Rightarrow> session option \<Rightarrow> (unit, ('b, 'x) world_scheme) prog" where
  "cleanup D driver w =
     (case driver of
        None \<Rightarrow> (Inr (), w)
      | Some drv \<Rightarrow>
          if \<not> getattr_keep_open w
          then then_do (command (EvQuit drv) (drv_quit D drv)) (\<lambda>_. print ''[INFO] Chrome closed.'') w
          else print ''[INFO] Chrome left open for manual inspection.'' w)"

text \<open>
  The \<open>try\<close> statement of the generator, for what is left of its body: nothing after
  a resumption by \<open>next\<close>, the exception thrown in at the \<open>yield\<close>, or the exception
  that \<open>create_driver\<close> raised.
\<close>

definition managed_driver_try ::
  "'b selenium \<Rightarrow> (unit, ('b, 'x) world_scheme) prog \<Rightarrow> session option \<Rightarrow> (unit, ('b, 'x) world_scheme) prog" where
  "managed_driver_try D body driver =
     try_finally
       (try_except body
          [(is_FileNotFoundError,
            \<lambda>e. then_do (print (CHR 0x0A # ''[ERROR] Required file not found: '' @ exn_str e)) (\<lambda>_.
                 print (''[INFO] Please run '' @ [CHR 0x27] @ ''Install Chrome for Testing'' @ [CHR 0x27]
                        @ '' in PySeed Manager.''))),
           (is_Exception,
            \<lambda>e. print (CHR 0x0A # ''[ERROR] Chrome setup failed: '' @ exn_str e))])
       (cleanup D driver)"

datatype gen_step = Yielded "session option" | Returned

text \<open>The generator from its start to its first \<open>yield\<close> or its end.\<close>

definition managed_driver_start ::
  "host \<Rightarrow> 'b selenium \<Rightarrow> config \<Rightarrow> chrome_driver_manager \<Rightarrow> string option \<Rightarrow> bool
     \<Rightarrow> (gen_step, ('b, 'x) world_scheme) prog" where
  "managed_driver_start H D cfg self profile_name keep_open w =
     (let w0 = w\<lparr>mgr_keep_open := Some keep_open\<rparr>;
          shown = (case profile_name of
                     None \<Rightarrow> DEFAULT_PROFILE_NAME cfg
                   | Some n \<Rightarrow> if n \<noteq> [] then n else DEFAULT_PROFILE_NAME cfg)
      in
      case then_do (print (''[INFO] Launching Chrome with profile: '' @ shown @ ''...'')) (\<lambda>_.
             create_driver H D cfg self profile_name False) w0 of
        (Inr driver, w1) \<Rightarrow> (Inr (Yielded (Some driver)), w1)
      | (Inl e, w1) \<Rightarrow> then_do (managed_driver_try D (raise e) None) (\<lambda>_. ret Returned) w1)"

text \<open>The generator resumed at its \<open>yield\<close>, by \<open>next\<close> or by \<open>throw(e)\<close>.\<close>

definition managed_driver_next :: "'b selenium \<Rightarrow> session option \<Rightarrow> (gen_step, ('b, 'x) world_scheme) prog" where
  "managed_driver_next D driver = then_do (managed_driver_try D (ret ()) driver) (\<lambda>_. ret Returned)"

definition managed_driver_throw ::
  "'b selenium \<Rightarrow> session option \<Rightarrow> exn \<Rightarrow> (gen_step, ('b, 'x) world_scheme) prog" where
  "managed_driver_throw D driver e = then_do (managed_driver_try D (raise e) driver) (\<lambda>_. ret Returned)"

subsection \<open>contextlib.contextmanager and the with statement\<close>

text \<open>
  \<open>__enter__\<close> runs the generator to its first \<open>yield\<close> and returns the value yielded;
  a generator that ends without yielding makes it raise \<open>RuntimeError\<close>.
\<close>

definition cm_enter :: "(gen_step, 's) prog \<Rightarrow> (session option, 's) prog" where
  "cm_enter start s =
     (case start s of
        (Inr (Yielded v), s') \<Rightarrow> (Inr v, s')
      | (Inr Returned, s') \<Rightarrow> (Inl (RuntimeError ''generator didn't yield''), s')
      | (Inl e, s') \<Rightarrow> (Inl e, s'))"

text \<open>
  \<open>__exit__\<close>, for a block left normally (\<open>None\<close>) or by an exception. Its result says
  whether the exception is suppressed: it is when the generator ends after
  \<open>throw\<close>, and it is not when the generator raises that exception again.
\<close>

definition cm_exit :: "(gen_step, 's) prog \<Rightarrow> (exn \<Rightarrow> (gen_step, 's) prog) \<Rightarrow> exn option \<Rightarrow> (bool, 's) prog" where
  "cm_exit resume throw exc s =
     (case exc of
        None \<Rightarrow>
          (case resume s of
             (Inr Returned, s') \<Rightarrow> (Inr False, s')
           | (Inr (Yielded _), s') \<Rightarrow> (Inl (RuntimeError ''generator didn't stop''), s')
           | (Inl e, s') \<Rightarrow> (Inl e, s'))
      | Some value \<Rightarrow>
          (case throw value s of
             (Inr Returned, s') \<Rightarrow> (Inr True, s')
           | (Inr (Yielded _), s') \<Rightarrow> (Inl (RuntimeError ''generator didn't stop after throw()''), s')
           | (Inl e, s') \<Rightarrow> if e = value then (Inr False, s') else (Inl e, s')))"

text \<open>
  \<open>with enter() as v: body v\<close>. The result is \<open>Some r\<close> when the body returned \<open>r\<close>, and
  \<open>None\<close> when the body raised and the exit suppressed the exception.
\<close>

definition with_stmt ::
  "('v, 's) prog \<Rightarrow> ('v \<Rightarrow> exn option \<Rightarrow> (bool, 's) prog) \<Rightarrow> ('v \<Rightarrow> ('a, 's) prog) \<Rightarrow> ('a option, 's) prog" where
  "with_stmt enter exit body s =
     (case enter s of
        (Inl e, s1) \<Rightarrow> (Inl e, s1)
      | (Inr v, s1) \<Rightarrow>
          (case body v s1 of
             (Inr r, s2) \<Rightarrow>
               (case exit v None s2 of
                  (Inl e, s3) \<Rightarrow> (Inl e, s3)
                | (Inr _, s3) \<Rightarrow> (Inr (Some r), s3))
           | (Inl e, s2) \<Rightarrow>
               (case exit v (Some e) s2 of
                  (Inl e', s3) \<Rightarrow> (Inl e', s3)
                | (Inr suppress, s3) \<Rightarrow> if suppress then (Inr None, s3) else (Inl e, s3))))"

definition managed_driver_enter ::
  "host \<Rightarrow> 'b selenium \<Rightarrow> config \<Rightarrow> chrome_driver_manager \<Rightarrow> string option \<Rightarrow> bool
     \<Rightarrow> (session option, ('b, 'x) world_scheme) prog" where
  "managed_driver_enter H D cfg self profile_name keep_open =
     cm_enter (managed_driver_start H D cfg self profile_name keep_open)"

definition managed_driver_exit ::
  "'b selenium \<Rightarrow> session option \<Rightarrow> exn option \<Rightarrow> (bool, ('b, 'x) world_scheme) prog" where
  "managed_driver_exit D driver exc =
     cm_exit (managed_driver_next D driver) (managed_driver_throw D driver) exc"

definition managed_driver ::
  "host \<Rightarrow> 'b selenium \<Rightarrow> config \<Rightarrow> chrome_driver_manager \<Rightarrow> string option \<Rightarrow> bool
     \<Rightarrow> (session option \<Rightarrow> ('a, ('b, 'x) world_scheme) prog) \<Rightarrow> ('a option, ('b, 'x) world_scheme) prog" where
  "managed_driver H D cfg self profile_name keep_open body =
     with_stmt (managed_driver_enter H D cfg self profile_name keep_open) (managed_driver_exit D) body"

section \<open>MainApplication (core.py)\<close>

record main_application =
  chrome_manager :: chrome_driver_manager
  file_handler :: file_handler

definition MainApplication :: "host \<Rightarrow> main_application" where
  "MainApplication H = \<lparr>chrome_manager = ChromeDriverManager H, file_handler = \<lparr>base_path = cwd H\<rparr>\<rparr>"

text \<open>\<open>input(prompt)\<close>: the prompt is printed, then the next answer is taken.\<close>

definition py_input :: "string \<Rightarrow> (string, ('b, 'x) world_scheme) prog" where
  "py_input prompt w =
     (case stdin w of
        [] \<Rightarrow> (Inl (EOFError ''EOF when reading a line''), w\<lparr>out := out w @ [prompt]\<rparr>)
      | answer # rest \<Rightarrow> (answer, w\<lparr>out := out w @ [prompt], stdin := rest\<rparr>))"

definition get_timestamp :: "host \<Rightarrow> (string, ('b, 'x) world_scheme) prog" where
  "get_timestamp H w = (Inr (strftime H (clock H (tick w))), w\<lparr>tick := Suc (tick w)\<rparr>)"

fun numbered_lines :: "nat \<Rightarrow> string list \<Rightarrow> string" where
  "numbered_lines i [] = []"
| "numbered_lines i (title # titles) =
     show_nat i @ ''. '' @ title @ [CHR 0x0A] @ numbered_lines (Suc i) titles"

text \<open>
  \<open>_save_results\<close>; \<open>last_search_term\<close> is the attribute \<open>_last_search_term\<close> of the
  application, \<open>None\<close> when it has not been set.
\<close>

definition save_results ::
  "pylib \<Rightarrow> host \<Rightarrow> config \<Rightarrow> main_application \<Rightarrow> string option \<Rightarrow> string list
     \<Rightarrow> (unit, ('b, 'x) world_scheme) prog" where
  "save_results L H cfg self last_search_term video_titles =
     (let term = (case last_search_term of None \<Rightarrow> DEFAULT_SEARCH_TERM | Some t \<Rightarrow> t) in
      try_except
        (then_do (get_timestamp H) (\<lambda>stamp.
         let data = PyDict [(''search_term'', PyStr term), (''timestamp'', PyStr stamp),
                            (''results'', PyList (map PyStr video_titles))];
             json_file = path_join (path_join (PROJECT_DIR cfg) ''results'') ''youtube_results.json''
         in
         then_do (write_json L (file_handler self) json_file data 2) (\<lambda>saved.
         then_do (if saved then print (''[INFO] Results saved to: '' @ json_file) else ret ()) (\<lambda>_.
         then_do (get_timestamp H) (\<lambda>stamp2.
         let text_content = ''YouTube Search Results'' @ [CHR 0x0A]
                            @ ''Search Term: '' @ term @ [CHR 0x0A]
                            @ ''Timestamp: '' @ stamp2 @ [CHR 0x0A, CHR 0x0A]
                            @ numbered_lines 1 video_titles;
             text_file = path_join (path_join (PROJECT_DIR cfg) ''results'') ''youtube_results.txt''
         in
         then_do (write_text (file_handler self) text_file text_content) (\<lambda>saved2.
         if saved2 then print (''[INFO] Results also saved to: '' @ text_file) else ret ()))))))
        [(is_Exception, \<lambda>e. print (''[ERROR] Failed to save results: '' @ exn_str e))])"

text \<open>The body of the \<open>with\<close> block of \<open>run_youtube_demo\<close>.\<close>

definition demo_body ::
  "pylib \<Rightarrow> host \<Rightarrow> 'b selenium \<Rightarrow> config \<Rightarrow> main_application \<Rightarrow> string \<Rightarrow> session option
     \<Rightarrow> (unit, ('b, 'x) world_scheme) prog" where
  "demo_body L H D cfg self search_term driver =
     (case driver of
        None \<Rightarrow> ret ()
      | Some drv \<Rightarrow>
          (let youtube = YouTubeAutomation drv in
           then_do (search_tech_news D youtube (Some search_term)) (\<lambda>video_titles.
           then_do (if video_titles \<noteq> []
                    then save_results L H cfg self (Some search_term) video_titles
                    else ret ()) (\<lambda>_.
           then_do (py_input (CHR 0x0A # ''[INFO] Browse the results and press Enter when done...'')) (\<lambda>_.
           then_do (py_input (CHR 0x0A # ''[INFO] Press Enter to close Chrome and exit...'')) (\<lambda>_.
           ret ()))))))"

definition run_youtube_demo ::
  "pylib \<Rightarrow> host \<Rightarrow> 'b selenium \<Rightarrow> config \<Rightarrow> main_application \<Rightarrow> (unit, ('b, 'x) world_scheme) prog" where
  "run_youtube_demo L H D cfg self =
     then_do (print (CHR 0x0A # ''=== '' @ PROJECT_NAME cfg @ '' v'' @ VERSION cfg @ '' ==='')) (\<lambda>_.
     let search_term = DEFAULT_SEARCH_TERM in
     then_do (print (''Searching YouTube for: '' @ [CHR 0x27] @ search_term @ [CHR 0x27])) (\<lambda>_.
     try_except
       (then_do (managed_driver H D cfg (chrome_manager self) None False
                   (demo_body L H D cfg self search_term)) (\<lambda>_. ret ()))
       [(is_KeyboardInterrupt, \<lambda>e. print (CHR 0x0A # ''[INFO] Operation cancelled by user.'')),
        (is_Exception, \<lambda>e. print (CHR 0x0A # ''[ERROR] Application error: '' @ exn_str e))]))"

definition run :: "pylib \<Rightarrow> host \<Rightarrow> 'b selenium \<Rightarrow> config \<Rightarrow> main_application \<Rightarrow> (unit, ('b, 'x) world_scheme) prog" where
  "run L H D cfg self = run_youtube_demo L H D cfg self"

section \<open>A scripted page, for concrete runs\<close>

text \<open>
  A driver over a static page: \<open>present\<close> says which landmarks exist, and the
  result-title elements are numbered from 0 with the given \<open>title\<close> attributes
  (\<open>None\<close> where the attribute is absent). A wait for an absent landmark times out.
  The browser state counts the sessions launched; a new session gets the next number.
\<close>

definition page_driver :: "(locator \<Rightarrow> bool) \<Rightarrow> string option list \<Rightarrow> nat selenium" where
  "page_driver present labels =
     \<lparr>chrome_new = (\<lambda>p opts b. (Inr b, Suc b)),
      drv_get = (\<lambda>s url b. (Inr (), b)),
      wait_presence = (\<lambda>s t loc b.
         if present loc then (Inr 0, b) else (Inl (TimeoutException ''Message: ''), b)),
      wait_presence_all = (\<lambda>s t loc b.
         if present loc \<and> labels \<noteq> [] then (Inr [0..<length labels], b)
         else (Inl (TimeoutException ''Message: ''), b)),
      el_clear = (\<lambda>s el b. (Inr (), b)),
      el_send_keys = (\<lambda>s el k b. (Inr (), b)),
      el_get_attribute = (\<lambda>s el a b. (Inr (if el < length labels then labels ! el else None), b)),
      drv_quit = (\<lambda>s b. (Inr (), b))\<rparr>"

definition empty_fs :: fs where
  "empty_fs = \<lparr>files = Map.empty, dirs = {}, io_fault = (\<lambda>op p. None)\<rparr>"

definition empty_world :: "nat world" where
  "empty_world = \<lparr>browser = 0, calls = [], out = [], fsys = empty_fs, tick = 0, stdin = [],
                   mgr_keep_open = None\<rparr>"

text \<open>The titles that a list of \<open>title\<close> attributes contributes: the non-empty ones.\<close>

fun present_titles :: "string option list \<Rightarrow> string list" where
  "present_titles [] = []"
| "present_titles (None # ls) = present_titles ls"
| "present_titles (Some t # ls) = (if t \<noteq> [] then t # present_titles ls else present_titles ls)"

text \<open>
  A library stub that knows a table of JSON documents with their texts: it renders
  and parses exactly those, and parses the empty text as a CSV file without rows.
\<close>

definition table_lib :: "(json \<times> string) list \<Rightarrow> pylib" where
  "table_lib table =
     \<lparr>json_render = (\<lambda>indent j. case map_of table j of Some t \<Rightarrow> t | None \<Rightarrow> []),
      json_partial = (\<lambda>indent d. []),
      json_parse = (\<lambda>t. case find (\<lambda>jt. snd jt = t) table of
                           Some jt \<Rightarrow> Inr (fst jt)
                         | None \<Rightarrow> Inl (JSONDecodeError ''Expecting value: line 1 column 1 (char 0)'')),
      csv_parse = (\<lambda>t. if t = [] then Inr [] else Inl (CsvError ''line contains NUL''))\<rparr>"

text \<open>A world whose file system has the root directory and nothing else.\<close>

definition root_world :: "nat world" where
  "root_world = empty_world\<lparr>fsys := empty_fs\<lparr>dirs := {''/''}\<rparr>\<rparr>"




text \<open>Two documents with the texts that \<open>json.dump\<close> writes for them at indent 2.\<close>

definition pair_doc :: json where
  "pair_doc = JObj [(''a'', JArr [JNum 1, JNum 2])]"

definition pair_text :: string where
  "pair_text = ''{'' @ [CHR 0x0A] @ ''  '' @ [CHR 0x22] @ ''a'' @ [CHR 0x22] @ '': ['' @ [CHR 0x0A]
               @ ''    1,'' @ [CHR 0x0A] @ ''    2'' @ [CHR 0x0A] @ ''  ]'' @ [CHR 0x0A] @ ''}''"

definition demo_lib :: pylib where
  "demo_lib = table_lib [(pair_doc, pair_text), (JObj [], ''{}'')]"

text \<open>
  A Linux host without \<open>appmanager\<close>, whose clock is read twice within one second,
  and a project named Demo. In \<open>installed_world\<close> the browser and the driver are
  where the fallback chain looks for them.
\<close>

definition demo_host :: host where
  "demo_host =
     \<lparr>appmanager = None, platform_system = ''Linux'', environ = Map.empty, home = ''/home/user'',
      cwd = ''/home/user/Demo'',
      clock = (\<lambda>n. if n = 0 then 17000000002 / 10 else 17000000009 / 10),
      strftime = (\<lambda>t. ''2023-11-14 22:13:20'')\<rparr>"

definition demo_config :: config where
  "demo_config =
     \<lparr>PROJECT_ROOT = ''/home/user/Demo'', PROJECT_DIR = ''/home/user/Demo/project'',
      PROJECT_NAME = ''Demo'', VERSION = ''1.0.0''\<rparr>"

definition installed_world :: "nat world" where
  "installed_world = empty_world\<lparr>fsys :=
     \<lparr>files = [''/home/user/.local/share/demo/ChromeForTesting/chrome-linux64/chrome'' \<mapsto> [],
               ''/home/user/.local/share/demo/ChromeForTesting/chromedriver-linux64/chromedriver'' \<mapsto> []],
      dirs = {''/''}, io_fault = (\<lambda>op p. None)\<rparr>\<rparr>"

text \<open>The \<open>--user-data-dir\<close> argument of each browser launch among the commands.\<close>

fun launch_profiles :: "event list \<Rightarrow> string list" where
  "launch_profiles [] = []"
| "launch_profiles (EvChrome p opts # evs) = take 1 (arguments opts) @ launch_profiles evs"
| "launch_profiles (ev # evs) = launch_profiles evs"

fun quits :: "event list \<Rightarrow> session list" where
  "quits [] = []"
| "quits (EvQuit s # evs) = s # quits evs"
| "quits (ev # evs) = quits evs"

section \<open>Verified properties\<close>

subsection \<open>Sequencing and output\<close>

lemma then_do_Inl: "m s = (Inl e, s') \<Longrightarrow> then_do m f s = (Inl e, s')"
  by (simp add: then_do_def)

lemma command_eq:
  "command ev op w = (fst (op (browser w)), w\<lparr>browser := snd (op (browser w)), calls := calls w @ [ev]\<rparr>)"
  by (simp add: command_def split: prod.splits)

lemma print_numbered_returns:
  "\<exists>w'. print_numbered i ts w = (Inr (), w') \<and> calls w' = calls w \<and> browser w' = browser w"
proof (induction ts arbitrary: i w)
  case Nil
  then show ?case by simp
next
  case (Cons t ts)
  obtain w' where "print_numbered (Suc i) ts (w\<lparr>out := out w @ [show_nat i @ ''. '' @ t]\<rparr>) = (Inr (), w')"
      "calls w' = calls w" "browser w' = browser w"
    using Cons.IH [of "Suc i" "w\<lparr>out := out w @ [show_nat i @ ''. '' @ t]\<rparr>"] by auto
  then show ?case by (simp add: print_def)
qed

lemma report_returns:
  "\<exists>w'. (if titles \<noteq> [] then
           then_do (print h) (\<lambda>_. then_do (print_numbered 1 titles) (\<lambda>_. print f))
         else ret ()) w = (Inr (), w') \<and> calls w' = calls w \<and> browser w' = browser w"
proof -
  obtain w' where "print_numbered 1 titles (w\<lparr>out := out w @ [h]\<rparr>) = (Inr (), w')"
     "calls w' = calls w" "browser w' = browser w"
    using print_numbered_returns [of 1 titles "w\<lparr>out := out w @ [h]\<rparr>"] by auto
  then show ?thesis
    by (auto simp: then_do_def print_def ret_def)
qed

subsection \<open>search_tech_news\<close>

lemma search_tech_news_after_search:
  assumes nav: "navigate_to_youtube D self w = (Inr (), w1)"
      and srch: "search D self X w1 = (Inr success, w2)"
  shows "search_tech_news D self (Some X) w =
           (if success then
              then_do (get_video_titles D self 10) (\<lambda>titles.
                then_do (if titles \<noteq> [] then
                   then_do (print (CHR 0x0A # ''=== Search Results for '' @ [CHR 0x27] @ X @ [CHR 0x27] @ '' ==='')) (\<lambda>_.
                   then_do (print_numbered 1 titles) (\<lambda>_.
                   print (replicate 40 CHR ''='')))
                 else ret ()) (\<lambda>_. ret titles)) w2
            else (Inr [], w2))"
  using nav srch by (simp add: search_tech_news_def then_do_def ret_def)

text \<open>
  Claim C1. \<open>search_tech_news(X)\<close> navigates, then searches, and extracts only if
  the search succeeded. Once navigation has returned and the search step has
  returned \<open>success\<close> in state \<open>w2\<close>: when \<open>success\<close> is false the result is the empty
  list and the run stops in \<open>w2\<close> itself, so no extraction command is issued,
  whatever the driver would have found; when \<open>success\<close> is true the outcome, the
  driver commands and the browser are those of \<open>get_video_titles\<close> run from \<open>w2\<close>
  with the default maximum of 10.
\<close>

theorem search_tech_news_gated:
  assumes nav: "navigate_to_youtube D self w = (Inr (), w1)"
      and srch: "search D self X w1 = (Inr success, w2)"
  shows "if success
         then fst (search_tech_news D self (Some X) w) = fst (get_video_titles D self 10 w2)
            \<and> calls (snd (search_tech_news D self (Some X) w)) = calls (snd (get_video_titles D self 10 w2))
            \<and> browser (snd (search_tech_news D self (Some X) w)) = browser (snd (get_video_titles D self 10 w2))
         else search_tech_news D self (Some X) w = (Inr [], w2)"
proof (cases success)
  case False
  then show ?thesis using search_tech_news_after_search [OF nav srch] by simp
next
  case True
  obtain r w3 where g: "get_video_titles D self 10 w2 = (r, w3)"
    by (cases "get_video_titles D self 10 w2")
  show ?thesis
  proof (cases r)
    case (Inl e)
    then show ?thesis using True g search_tech_news_after_search [OF nav srch]
      by (simp add: then_do_def)
  next
    case (Inr titles)
    obtain w4 where "(if titles \<noteq> [] then
                   then_do (print (CHR 0x0A # ''=== Search Results for '' @ [CHR 0x27] @ X @ [CHR 0x27] @ '' ==='')) (\<lambda>_.
                   then_do (print_numbered 1 titles) (\<lambda>_.
                   print (replicate 40 CHR ''='')))
                 else ret ()) w3 = (Inr (), w4)" "calls w4 = calls w3" "browser w4 = browser w3"
      using report_returns by blast
    then show ?thesis using True g Inr search_tech_news_after_search [OF nav srch]
      by (simp add: then_do_def ret_def)
  qed
qed

text \<open>
  Two runs: on a page without the search box the search step returns false and
  the result is empty although the page holds a result title; on a complete page
  the title is returned.
\<close>

theorem search_tech_news_gated_witness:
  "fst (search (page_driver (\<lambda>l. l \<noteq> ByName ''search_query'') [Some ''A talk''])
          (YouTubeAutomation 0) ''cats''
          (snd (navigate_to_youtube (page_driver (\<lambda>l. l \<noteq> ByName ''search_query'') [Some ''A talk''])
                  (YouTubeAutomation 0) empty_world))) = Inr False
   \<and> fst (search_tech_news (page_driver (\<lambda>l. l \<noteq> ByName ''search_query'') [Some ''A talk''])
            (YouTubeAutomation 0) (Some ''cats'') empty_world) = Inr []
   \<and> fst (search_tech_news (page_driver (\<lambda>l. True) [Some ''A talk''])
            (YouTubeAutomation 0) (Some ''cats'') empty_world) = Inr [''A talk'']"
proof -
  let ?D = "page_driver (\<lambda>l. l \<noteq> ByName ''search_query'') [Some ''A talk'']"
  let ?E = "page_driver (\<lambda>l. True) [Some ''A talk'']"
  let ?yt = "YouTubeAutomation 0"
  have s1: "fst (search ?D ?yt ''cats'' (snd (navigate_to_youtube ?D ?yt empty_world))) = Inr False"
    by (simp add: search_def try_except_def navigate_to_youtube_def then_do_def print_def
        command_def page_driver_def ret_def)
  have s2: "fst (search ?E ?yt ''cats'' (snd (navigate_to_youtube ?E ?yt empty_world))) = Inr True"
    by (simp add: search_def try_except_def navigate_to_youtube_def then_do_def print_def
        command_def page_driver_def ret_def)
  have n1: "fst (navigate_to_youtube ?D ?yt empty_world) = Inr ()"
    by (simp add: navigate_to_youtube_def then_do_def print_def command_def page_driver_def)
  have n2: "fst (navigate_to_youtube ?E ?yt empty_world) = Inr ()"
    by (simp add: navigate_to_youtube_def then_do_def print_def command_def page_driver_def)
  have nav: "navigate_to_youtube ?D ?yt empty_world = (Inr (), snd (navigate_to_youtube ?D ?yt empty_world))"
    using n1 by (metis prod.collapse)
  have srch: "search ?D ?yt ''cats'' (snd (navigate_to_youtube ?D ?yt empty_world))
                = (Inr False, snd (search ?D ?yt ''cats'' (snd (navigate_to_youtube ?D ?yt empty_world))))"
    using s1 by (metis prod.collapse)
  have navE: "navigate_to_youtube ?E ?yt empty_world = (Inr (), snd (navigate_to_youtube ?E ?yt empty_world))"
    using n2 by (metis prod.collapse)
  have srchE: "search ?E ?yt ''cats'' (snd (navigate_to_youtube ?E ?yt empty_world))
                = (Inr True, snd (search ?E ?yt ''cats'' (snd (navigate_to_youtube ?E ?yt empty_world))))"
    using s2 by (metis prod.collapse)
  have g: "fst (get_video_titles ?E ?yt 10 (snd (search ?E ?yt ''cats'' (snd (navigate_to_youtube ?E ?yt empty_world)))))
             = Inr [''A talk'']"
    by (simp add: get_video_titles_def search_def try_except_def navigate_to_youtube_def then_do_def
        print_def command_def page_driver_def ret_def slice_to_def)
  have A: "search_tech_news ?D ?yt (Some ''cats'') empty_world
             = (Inr [], snd (search ?D ?yt ''cats'' (snd (navigate_to_youtube ?D ?yt empty_world))))"
    using search_tech_news_gated [OF nav srch] by (simp only: if_False)
  have B: "fst (search_tech_news ?E ?yt (Some ''cats'') empty_world)
             = fst (get_video_titles ?E ?yt 10 (snd (search ?E ?yt ''cats'' (snd (navigate_to_youtube ?E ?yt empty_world)))))"
    using search_tech_news_gated [OF navE srchE] by (simp only: if_True)
  from s1 A B g show ?thesis by (simp only: fst_conv simp_thms)
qed

text \<open>
  Claim C10. \<open>navigate_to_youtube\<close> has no handler: when loading the page raises
  \<open>e\<close>, or the page loads and the bounded wait for the \<open>body\<close> landmark raises \<open>e\<close> (a
  timeout included), then navigation raises \<open>e\<close> and \<open>search_tech_news\<close> raises the
  same \<open>e\<close> to its caller, in the state navigation left: there is no search, no
  extraction and no empty list.
\<close>

theorem navigation_failure_propagates:
  assumes "fst (drv_get D (yt_driver self) YOUTUBE_URL (browser w)) = Inl e
           \<or> (\<exists>b1. drv_get D (yt_driver self) YOUTUBE_URL (browser w) = (Inr (), b1)
                 \<and> fst (wait_presence D (yt_driver self) (yt_wait self) (ByTagName ''body'') b1) = Inl e)"
  shows "fst (navigate_to_youtube D self w) = Inl e
       \<and> search_tech_news D self search_term w = (Inl e, snd (navigate_to_youtube D self w))"
proof -
  have nav: "fst (navigate_to_youtube D self w) = Inl e"
    using assms
    by (auto simp: navigate_to_youtube_def then_do_def print_def command_def split: prod.splits sum.splits)
  then have eq: "navigate_to_youtube D self w = (Inl e, snd (navigate_to_youtube D self w))"
    by (metis prod.collapse)
  have "search_tech_news D self search_term w = (Inl e, snd (navigate_to_youtube D self w))"
    unfolding search_tech_news_def Let_def by (rule then_do_Inl) (rule eq)
  with nav show ?thesis by simp
qed

theorem navigation_failure_propagates_witness:
  "fst (wait_presence (page_driver (\<lambda>l. False) []) 0 10 (ByTagName ''body'') 0) = Inl (TimeoutException ''Message: '')
   \<and> fst (search_tech_news (page_driver (\<lambda>l. False) []) (YouTubeAutomation 0) (Some ''cats'') empty_world)
       = Inl (TimeoutException ''Message: '')"
proof -
  have h: "fst (drv_get (page_driver (\<lambda>l. False) []) (yt_driver (YouTubeAutomation 0)) YOUTUBE_URL (browser empty_world))
              = Inl (TimeoutException ''Message: '')
           \<or> (\<exists>b1. drv_get (page_driver (\<lambda>l. False) []) (yt_driver (YouTubeAutomation 0)) YOUTUBE_URL (browser empty_world) = (Inr (), b1)
                 \<and> fst (wait_presence (page_driver (\<lambda>l. False) []) (yt_driver (YouTubeAutomation 0))
                          (yt_wait (YouTubeAutomation 0)) (ByTagName ''body'') b1) = Inl (TimeoutException ''Message: ''))"
    by (simp add: page_driver_def)
  show ?thesis
    using navigation_failure_propagates [OF h, of "Some ''cats''"] by (simp add: page_driver_def)
qed

subsection \<open>get_video_titles\<close>

text \<open>
  Claim C8. When the bounded wait for the result-title elements raises a timeout,
  \<open>get_video_titles\<close> returns the empty list and raises nothing: the wait is its
  only driver command and the failure is printed.
\<close>

theorem get_video_titles_timeout:
  assumes "wait_presence_all D (yt_driver self) (yt_wait self) (ByCssSelector ''a#video-title'') (browser w)
             = (Inl (TimeoutException m), b')"
  shows "get_video_titles D self max_results w =
           (Inr [], w\<lparr>browser := b',
                      calls := calls w @ [EvWaitAll (yt_driver self) (ByCssSelector ''a#video-title'')],
                      out := out w @ [''[ERROR] Failed to get video titles: '' @ m]\<rparr>)"
  using assms
  by (simp add: get_video_titles_def try_except_def then_do_def command_def print_def ret_def)

theorem get_video_titles_timeout_witness:
  "wait_presence_all (page_driver (\<lambda>l. False) []) 0 10 (ByCssSelector ''a#video-title'') 0
     = (Inl (TimeoutException ''Message: ''), 0) \<and>
   fst (get_video_titles (page_driver (\<lambda>l. False) []) (YouTubeAutomation 0) 10 empty_world) = Inr []"
proof -
  have h: "wait_presence_all (page_driver (\<lambda>l. False) []) (yt_driver (YouTubeAutomation 0))
             (yt_wait (YouTubeAutomation 0)) (ByCssSelector ''a#video-title'') (browser empty_world)
           = (Inl (TimeoutException ''Message: ''), 0)"
    by (simp add: page_driver_def empty_world_def)
  show ?thesis
    using get_video_titles_timeout [OF h, of 10] by (simp add: page_driver_def)
qed

lemma collect_titles_labels:
  assumes "\<forall>el \<in> set els. \<forall>b. fst (el_get_attribute D drv el ''title'' b) = Inr (label el)"
  shows "\<exists>w'. collect_titles D drv els titles w = (Inr (titles @ present_titles (map label els)), w')
             \<and> calls w' = calls w @ map (\<lambda>el. EvGetAttribute drv el ''title'') els
             \<and> out w' = out w"
  using assms
proof (induction els arbitrary: titles w)
  case Nil
  then show ?case by simp
next
  case (Cons el els)
  define w1 where "w1 = snd (command (EvGetAttribute drv el ''title'') (el_get_attribute D drv el ''title'') w)"
  have step: "command (EvGetAttribute drv el ''title'') (el_get_attribute D drv el ''title'') w = (Inr (label el), w1)"
    using Cons.prems by (simp add: w1_def command_eq)
  have c1: "calls w1 = calls w @ [EvGetAttribute drv el ''title'']" and o1: "out w1 = out w"
    by (simp_all add: w1_def command_eq)
  have rest: "\<forall>el \<in> set els. \<forall>b. fst (el_get_attribute D drv el ''title'' b) = Inr (label el)"
    using Cons.prems by simp
  show ?case
  proof (cases "label el")
    case None
    from Cons.IH [OF rest, of titles w1] show ?thesis
      using step None c1 o1 by auto
  next
    case (Some t)
    show ?thesis
    proof (cases "t = []")
      case True
      from Cons.IH [OF rest, of titles w1] show ?thesis
        using step Some True c1 o1 by auto
    next
      case False
      from Cons.IH [OF rest, of "titles @ [t]" w1] show ?thesis
        using step Some False c1 o1 by auto
    qed
  qed
qed

lemma length_present_titles: "length (present_titles ls) \<le> length ls"
  by (induction ls rule: present_titles.induct) auto

lemma present_titles_all:
  "\<forall>l \<in> set ls. l \<noteq> None \<and> l \<noteq> Some [] \<Longrightarrow> present_titles ls = map the ls"
  by (induction ls rule: present_titles.induct) auto

text \<open>
  Claim C7, as the code has it. When the wait returns \<open>n\<close> result-title elements
  with \<open>n\<close> below the requested maximum, and reading the \<open>title\<close> attribute of each
  element \<open>el\<close> returns \<open>label el\<close>, then \<open>get_video_titles\<close> reads one attribute per
  element, in DOM order, and returns the non-empty labels in that order: at most
  \<open>n\<close> titles, and exactly the \<open>n\<close> labels when no element lacks one.
\<close>

theorem get_video_titles_fewer:
  assumes w: "wait_presence_all D (yt_driver self) (yt_wait self) (ByCssSelector ''a#video-title'') (browser w)
               = (Inr els, b1)"
      and n: "int (length els) < max_results"
      and l: "\<forall>el \<in> set els. \<forall>b. fst (el_get_attribute D (yt_driver self) el ''title'' b) = Inr (label el)"
  shows "fst (get_video_titles D self max_results w) = Inr (present_titles (map label els))
       \<and> calls (snd (get_video_titles D self max_results w))
           = calls w @ EvWaitAll (yt_driver self) (ByCssSelector ''a#video-title'')
               # map (\<lambda>el. EvGetAttribute (yt_driver self) el ''title'') els
       \<and> length (present_titles (map label els)) \<le> length els
       \<and> ((\<forall>el \<in> set els. label el \<noteq> None \<and> label el \<noteq> Some [])
            \<longrightarrow> present_titles (map label els) = map (\<lambda>el. the (label el)) els)"
proof -
  define w1 where "w1 = w\<lparr>browser := b1, calls := calls w @ [EvWaitAll (yt_driver self) (ByCssSelector ''a#video-title'')]\<rparr>"
  have sl: "slice_to max_results els = els" using n by (simp add: slice_to_def)
  obtain w2 where c: "collect_titles D (yt_driver self) els [] w1 = (Inr ([] @ present_titles (map label els)), w2)"
     and c2: "calls w2 = calls w1 @ map (\<lambda>el. EvGetAttribute (yt_driver self) el ''title'') els"
    using collect_titles_labels [OF l, of "[]" w1] by blast
  have "get_video_titles D self max_results w =
          (Inr (present_titles (map label els)),
           w2\<lparr>out := out w2 @ [''[INFO] Found '' @ show_nat (length (present_titles (map label els))) @ '' video titles'']\<rparr>)"
    using w c sl
    by (simp add: get_video_titles_def try_except_def then_do_def command_def print_def ret_def w1_def)
  then show ?thesis
    using c2 length_present_titles [of "map label els"] present_titles_all [of "map label els"]
    by (simp add: w1_def comp_def)
qed

theorem get_video_titles_fewer_witness:
  "fst (get_video_titles (page_driver (\<lambda>l. True) [Some ''First video'', Some ''Second video''])
          (YouTubeAutomation 0) 10 empty_world) = Inr [''First video'', ''Second video'']"
proof -
  let ?D = "page_driver (\<lambda>l. True) [Some ''First video'', Some ''Second video'']"
  let ?label = "\<lambda>el. if el < 2 then [Some ''First video'', Some ''Second video''] ! el else None"
  have w: "wait_presence_all ?D (yt_driver (YouTubeAutomation 0)) (yt_wait (YouTubeAutomation 0))
             (ByCssSelector ''a#video-title'') (browser empty_world) = (Inr [0, 1], 0)"
    by (simp add: page_driver_def upt_rec empty_world_def)
  have n: "int (length [0::nat, 1]) < 10" by simp
  have l: "\<forall>el \<in> set [0::nat, 1]. \<forall>b. fst (el_get_attribute ?D (yt_driver (YouTubeAutomation 0)) el ''title'' b) = Inr (?label el)"
    by (simp add: page_driver_def)
  show ?thesis
    using get_video_titles_fewer [OF w n l] by simp
qed

text \<open>
  The claim as written fails: a page exposing two result-title elements, the
  second with an empty \<open>title\<close>, yields one title although two is below the
  maximum of 10.
\<close>

theorem get_video_titles_skips_unlabelled:
  "wait_presence_all (page_driver (\<lambda>l. True) [Some ''First video'', Some '''']) 0 10
      (ByCssSelector ''a#video-title'') 0 = (Inr [0, 1], 0)
   \<and> fst (get_video_titles (page_driver (\<lambda>l. True) [Some ''First video'', Some ''''])
            (YouTubeAutomation 0) 10 empty_world) = Inr [''First video'']"
  by (simp add: page_driver_def upt_rec get_video_titles_def try_except_def then_do_def command_def
      print_def ret_def YouTubeAutomation_def empty_world_def slice_to_def ELEMENT_WAIT_TIMEOUT_def)


subsection \<open>FileHandler\<close>
























text \<open>
  Claim C6. \<open>write_csv\<close> with an empty list prints the warning and returns false
  before it resolves the path: the file system is the one it started from, so no
  file is created or changed and no directory is made.
\<close>

theorem write_csv_empty:
  "write_csv self file_path [] fieldnames w
     = (Inr False, w\<lparr>out := out w @ [''[WARNING] No data to write to CSV'']\<rparr>)
   \<and> fsys (snd (write_csv self file_path [] fieldnames w)) = fsys w"
  by (simp add: write_csv_def then_do_def print_def ret_def)








subsection \<open>ChromeDriverManager\<close>

lemma show_int_demo_stamp: "show_int 1700000000 = ''1700000000''"
  by (simp add: show_int_def show_nat.simps digit_def)

lemma demo_chrome_paths: "get_chrome_paths demo_host demo_config (ChromeDriverManager demo_host)
   = Inr (''/home/user/.local/share/demo/ChromeForTesting/chrome-linux64/chrome'',
      ''/home/user/.local/share/demo/ChromeForTesting/chromedriver-linux64/chromedriver'')"
  by (simp add: get_chrome_paths_def demo_host_def demo_config_def ChromeDriverManager_def get_platform_def
      path_join_def is_absolute_def path_name_def lower_def lower_char_def Let_def)

lemma demo_profile_root: "get_chrome_profile_path demo_host demo_config
   = Inr ''/home/user/.local/share/demo/ChromeProfiles/Demo_profile''"
  by (simp add: get_chrome_profile_path_def demo_host_def demo_config_def DEFAULT_PROFILE_NAME_def
      path_join_def is_absolute_def path_name_def lower_def lower_char_def Let_def)

lemma demo_clock_seconds: "int_of_float (clock demo_host 0) = 1700000000"
  "int_of_float (clock demo_host (Suc 0)) = 1700000000"
  by (simp_all add: int_of_float_def demo_host_def)


text \<open>
  Claim C9. The comment in \<open>create_driver\<close> announces a unique profile path, but
  the suffix is the clock reading cut to whole seconds: two calls with the same
  profile name whose readings fall in the same second, here 1700000000.2 and
  1700000000.9, both succeed and launch the browser on the same profile
  directory.
\<close>

theorem create_driver_same_second:
  "clock demo_host 0 \<noteq> clock demo_host 1
   \<and> fst (create_driver demo_host (page_driver (\<lambda>l. True) []) demo_config (ChromeDriverManager demo_host)
            None False installed_world) = Inr 0
   \<and> fst (create_driver demo_host (page_driver (\<lambda>l. True) []) demo_config (ChromeDriverManager demo_host)
            None False
            (snd (create_driver demo_host (page_driver (\<lambda>l. True) []) demo_config
                    (ChromeDriverManager demo_host) None False installed_world))) = Inr 1
   \<and> launch_profiles (calls (snd
         (create_driver demo_host (page_driver (\<lambda>l. True) []) demo_config (ChromeDriverManager demo_host)
            None False
            (snd (create_driver demo_host (page_driver (\<lambda>l. True) []) demo_config
                    (ChromeDriverManager demo_host) None False installed_world)))))
       = [''--user-data-dir=/home/user/.local/share/demo/ChromeProfiles/Demo_profile/Demo_profile_1700000000'',
          ''--user-data-dir=/home/user/.local/share/demo/ChromeProfiles/Demo_profile/Demo_profile_1700000000'']"
proof -
  let ?D = "page_driver (\<lambda>l. True) []"
  let ?M = "ChromeDriverManager demo_host"
  let ?opts = "build_options ?M ''/home/user/.local/share/demo/ChromeForTesting/chrome-linux64/chrome''
     ''/home/user/.local/share/demo/ChromeProfiles/Demo_profile/Demo_profile_1700000000'' False"
  let ?ev = "EvChrome ''/home/user/.local/share/demo/ChromeForTesting/chromedriver-linux64/chromedriver'' ?opts"
  have pe: "path_exists ''/home/user/.local/share/demo/ChromeForTesting/chrome-linux64/chrome'' (fsys installed_world)"
    "path_exists ''/home/user/.local/share/demo/ChromeForTesting/chromedriver-linux64/chromedriver'' (fsys installed_world)"
    by (simp_all add: path_exists_def installed_world_def)
  have nm: "DEFAULT_PROFILE_NAME demo_config = ''Demo_profile''"
    by (simp add: DEFAULT_PROFILE_NAME_def demo_config_def)
  have pd: "profile_dir ''/home/user/.local/share/demo/ChromeProfiles/Demo_profile'' ''Demo_profile'' 1700000000
             = ''/home/user/.local/share/demo/ChromeProfiles/Demo_profile/Demo_profile_1700000000''"
    by (simp add: profile_dir_def path_join_def is_absolute_def show_int_demo_stamp)
  have tk: "tick installed_world = 0" "browser installed_world = 0" "calls installed_world = []"
    by (simp_all add: installed_world_def empty_world_def)
  have first: "create_driver demo_host ?D demo_config ?M None False installed_world
                 = (Inr 0, installed_world\<lparr>tick := Suc 0, browser := Suc 0, calls := [?ev]\<rparr>)"
    using pe tk
    by (simp add: create_driver_def demo_chrome_paths demo_profile_root demo_clock_seconds nm pd Let_def then_do_def time_time_def command_def
        page_driver_def)
  have pe2: "path_exists ''/home/user/.local/share/demo/ChromeForTesting/chrome-linux64/chrome''
               (fsys (installed_world\<lparr>tick := Suc 0, browser := Suc 0, calls := [?ev]\<rparr>))"
    "path_exists ''/home/user/.local/share/demo/ChromeForTesting/chromedriver-linux64/chromedriver''
               (fsys (installed_world\<lparr>tick := Suc 0, browser := Suc 0, calls := [?ev]\<rparr>))"
    using pe by simp_all
  have second: "create_driver demo_host ?D demo_config ?M None False
                  (installed_world\<lparr>tick := Suc 0, browser := Suc 0, calls := [?ev]\<rparr>)
                 = (Inr 1, installed_world\<lparr>tick := Suc (Suc 0), browser := Suc (Suc 0), calls := [?ev, ?ev]\<rparr>)"
    using pe2
    by (simp add: create_driver_def demo_chrome_paths demo_profile_root demo_clock_seconds nm pd Let_def then_do_def time_time_def command_def
        page_driver_def)
  have lp: "launch_profiles [?ev, ?ev]
       = [''--user-data-dir=/home/user/.local/share/demo/ChromeProfiles/Demo_profile/Demo_profile_1700000000'',
          ''--user-data-dir=/home/user/.local/share/demo/ChromeProfiles/Demo_profile/Demo_profile_1700000000'']"
    by (simp add: build_options_def)
  have ne: "clock demo_host 0 \<noteq> clock demo_host 1" by (simp add: demo_host_def)
  let ?c1 = "create_driver demo_host ?D demo_config ?M None False installed_world"
  have A: "fst ?c1 = Inr 0" by (simp only: first fst_conv)
  have W: "snd ?c1 = installed_world\<lparr>tick := Suc 0, browser := Suc 0, calls := [?ev]\<rparr>"
    by (simp only: first snd_conv)
  have B: "fst (create_driver demo_host ?D demo_config ?M None False (snd ?c1)) = Inr 1"
    by (simp only: W second fst_conv)
  have C: "calls (snd (create_driver demo_host ?D demo_config ?M None False (snd ?c1))) = [?ev, ?ev]"
    by (simp only: W second snd_conv) simp
  have L: "launch_profiles (calls (snd (create_driver demo_host ?D demo_config ?M None False (snd ?c1))))
       = [''--user-data-dir=/home/user/.local/share/demo/ChromeProfiles/Demo_profile/Demo_profile_1700000000'',
          ''--user-data-dir=/home/user/.local/share/demo/ChromeProfiles/Demo_profile/Demo_profile_1700000000'']"
    by (simp only: C lp)
  from ne A B L show ?thesis by blast
qed


lemma create_driver_keeps_flag:
  "mgr_keep_open (snd (create_driver H D cfg self pn det w)) = mgr_keep_open w"
  by (auto simp: create_driver_def Let_def then_do_def time_time_def command_def raise_def
      split: sum.splits prod.splits)

lemma managed_driver_enter_Some:
  assumes "managed_driver_enter H D cfg self profile_name keep_open w = (Inr v, w1)"
  shows "\<exists>drv. v = Some drv \<and> mgr_keep_open w1 = Some keep_open"
proof -
  let ?w0 = "w\<lparr>mgr_keep_open := Some keep_open\<rparr>"
  let ?shown = "case profile_name of None \<Rightarrow> DEFAULT_PROFILE_NAME cfg
                 | Some n \<Rightarrow> if n \<noteq> [] then n else DEFAULT_PROFILE_NAME cfg"
  let ?wp = "?w0\<lparr>out := out ?w0 @ [''[INFO] Launching Chrome with profile: '' @ ?shown @ ''...'']\<rparr>"
  obtain r w' where c: "create_driver H D cfg self profile_name False ?wp = (r, w')"
    by (cases "create_driver H D cfg self profile_name False ?wp")
  have k: "mgr_keep_open w' = Some keep_open"
    using create_driver_keeps_flag [of H D cfg self profile_name False ?wp] c by simp
  show ?thesis
  proof (cases r)
    case (Inl e)
    then have "fst (managed_driver_start H D cfg self profile_name keep_open w) \<noteq> Inr (Yielded v)"
      using c
      by (auto simp: managed_driver_start_def Let_def then_do_def print_def ret_def
          split: prod.splits sum.splits)
    then show ?thesis using assms
      by (auto simp: managed_driver_enter_def cm_enter_def split: prod.splits sum.splits gen_step.splits)
  next
    case (Inr drv)
    then have "managed_driver_start H D cfg self profile_name keep_open w = (Inr (Yielded (Some drv)), w')"
      using c by (simp add: managed_driver_start_def Let_def then_do_def print_def)
    then show ?thesis using assms k
      by (auto simp: managed_driver_enter_def cm_enter_def)
  qed
qed

lemma handlers_keep:
  assumes "body = ret () \<or> body = raise e"
  shows "calls (snd (try_except body
          [(is_FileNotFoundError,
            \<lambda>e. then_do (print (a e)) (\<lambda>_. print (b e))),
           (is_Exception, \<lambda>e. print (c e))] w)) = calls w
       \<and> browser (snd (try_except body
          [(is_FileNotFoundError,
            \<lambda>e. then_do (print (a e)) (\<lambda>_. print (b e))),
           (is_Exception, \<lambda>e. print (c e))] w)) = browser w
       \<and> mgr_keep_open (snd (try_except body
          [(is_FileNotFoundError,
            \<lambda>e. then_do (print (a e)) (\<lambda>_. print (b e))),
           (is_Exception, \<lambda>e. print (c e))] w)) = mgr_keep_open w"
  using assms by (auto simp: try_except_def ret_def raise_def then_do_def print_def)


lemma cleanup_calls:
  "calls (snd (cleanup D (Some drv) w)) = (if getattr_keep_open w then calls w else calls w @ [EvQuit drv])"
  by (auto simp: cleanup_def then_do_def command_def print_def split: prod.splits sum.splits)

lemma cleanup_browser:
  "getattr_keep_open w \<Longrightarrow> browser (snd (cleanup D (Some drv) w)) = browser w"
  by (simp add: cleanup_def print_def)

lemma cleanup_closed:
  "\<not> getattr_keep_open w \<Longrightarrow> fst (drv_quit D drv (browser w)) = Inr ()
   \<Longrightarrow> last (out (snd (cleanup D (Some drv) w))) = ''[INFO] Chrome closed.''"
  by (auto simp: cleanup_def then_do_def command_def print_def split: prod.splits sum.splits)

lemma try_finally_snd: "snd (try_finally m c s) = snd (c (snd (m s)))"
  by (simp add: try_finally_def split: prod.splits sum.splits)

lemma then_do_ret_snd: "snd (then_do m (\<lambda>_. ret x) s) = snd (m s)"
  by (simp add: then_do_def ret_def split: prod.splits sum.splits)

lemma cm_exit_snd:
  "snd (cm_exit resume throw exc s) = (case exc of None \<Rightarrow> snd (resume s) | Some e \<Rightarrow> snd (throw e s))"
  by (simp add: cm_exit_def split: option.splits prod.splits sum.splits gen_step.splits)

lemma managed_driver_exit_snd:
  "snd (managed_driver_exit D driver exc w) =
     snd (cleanup D driver (snd (try_except (case exc of None \<Rightarrow> ret () | Some e \<Rightarrow> raise e)
          [(is_FileNotFoundError,
            \<lambda>e. then_do (print (CHR 0x0A # ''[ERROR] Required file not found: '' @ exn_str e)) (\<lambda>_.
                 print (''[INFO] Please run '' @ [CHR 0x27] @ ''Install Chrome for Testing'' @ [CHR 0x27]
                        @ '' in PySeed Manager.''))),
           (is_Exception,
            \<lambda>e. print (CHR 0x0A # ''[ERROR] Chrome setup failed: '' @ exn_str e))] w)))"
  by (cases exc)
     (simp_all add: managed_driver_exit_def cm_exit_snd managed_driver_next_def managed_driver_throw_def
       then_do_ret_snd managed_driver_try_def try_finally_snd)

text \<open>
  Claim C3, as the code has it. The exit of the block reads the attribute
  \<open>_keep_open\<close> of the manager, which the entry set to \<open>keep_open\<close>. For an entry that
  yielded, a driver was created; and for every state \<open>w2\<close> at the end of the body in
  which the attribute still has the value the entry gave it, and every way of
  leaving the block (normally or by \<open>return\<close>: \<open>None\<close>; by an exception \<open>e\<close>:
  \<open>Some e\<close>): if \<open>keep_open\<close> was false the exit issues exactly one more driver
  command, \<open>quit\<close> on that driver, and reports the browser closed when \<open>quit\<close>
  returns; if \<open>keep_open\<close> was true the exit issues no driver command and leaves
  the browser as it was.
\<close>

theorem managed_driver_exit_quits:
  assumes enter: "managed_driver_enter H D cfg self profile_name keep_open w = (Inr v, w1)"
      and kept: "mgr_keep_open w2 = mgr_keep_open w1"
  shows "\<exists>drv. v = Some drv \<and>
          (if keep_open
           then calls (snd (managed_driver_exit D v outcome w2)) = calls w2
              \<and> browser (snd (managed_driver_exit D v outcome w2)) = browser w2
           else calls (snd (managed_driver_exit D v outcome w2)) = calls w2 @ [EvQuit drv]
              \<and> (fst (drv_quit D drv (browser w2)) = Inr ()
                   \<longrightarrow> last (out (snd (managed_driver_exit D v outcome w2))) = ''[INFO] Chrome closed.''))"
proof -
  obtain drv where v: "v = Some drv" and k1: "mgr_keep_open w1 = Some keep_open"
    using managed_driver_enter_Some [OF enter] by blast
  let ?body = "case outcome of None \<Rightarrow> ret () | Some e \<Rightarrow> raise e"
  let ?hs = "[(is_FileNotFoundError,
            \<lambda>e. then_do (print (CHR 0x0A # ''[ERROR] Required file not found: '' @ exn_str e)) (\<lambda>_.
                 print (''[INFO] Please run '' @ [CHR 0x27] @ ''Install Chrome for Testing'' @ [CHR 0x27]
                        @ '' in PySeed Manager.''))),
           (is_Exception,
            \<lambda>e. print (CHR 0x0A # ''[ERROR] Chrome setup failed: '' @ exn_str e))]"
  let ?w3 = "snd (try_except ?body ?hs w2)"
  have b: "?body = ret () \<or> ?body = raise (case outcome of None \<Rightarrow> undefined | Some e \<Rightarrow> e)"
    by (cases outcome) simp_all
  have h: "calls ?w3 = calls w2" "browser ?w3 = browser w2" "mgr_keep_open ?w3 = mgr_keep_open w2"
    using handlers_keep [OF b, of _ _ _ w2] by simp_all
  have g: "getattr_keep_open ?w3 = keep_open"
    using h kept k1 by (simp add: getattr_keep_open_def)
  have s: "snd (managed_driver_exit D v outcome w2) = snd (cleanup D (Some drv) ?w3)"
    using v by (simp only: managed_driver_exit_snd)
  show ?thesis
  proof (cases keep_open)
    case True
    then show ?thesis using v s g h cleanup_calls [of D drv ?w3] cleanup_browser [of ?w3 D drv]
      by simp
  next
    case False
    then show ?thesis using v s g h cleanup_calls [of D drv ?w3] cleanup_closed [of ?w3 D drv]
      by simp
  qed
qed


lemma demo_clock_all: "int_of_float (clock demo_host n) = 1700000000"
  by (simp add: int_of_float_def demo_host_def)

lemma demo_create_driver:
  fixes w :: "nat world"
  assumes "fsys w = fsys installed_world"
  shows "create_driver demo_host (page_driver present labels) demo_config (ChromeDriverManager demo_host) None False w
     = (Inr (browser w),
        w\<lparr>tick := Suc (tick w), browser := Suc (browser w),
          calls := calls w @ [EvChrome ''/home/user/.local/share/demo/ChromeForTesting/chromedriver-linux64/chromedriver''
             (build_options (ChromeDriverManager demo_host)
                ''/home/user/.local/share/demo/ChromeForTesting/chrome-linux64/chrome''
                ''/home/user/.local/share/demo/ChromeProfiles/Demo_profile/Demo_profile_1700000000'' False)]\<rparr>)"
proof -
  have pe: "path_exists ''/home/user/.local/share/demo/ChromeForTesting/chrome-linux64/chrome'' (fsys w)"
    "path_exists ''/home/user/.local/share/demo/ChromeForTesting/chromedriver-linux64/chromedriver'' (fsys w)"
    using assms by (simp_all add: path_exists_def installed_world_def)
  have nm: "DEFAULT_PROFILE_NAME demo_config = ''Demo_profile''"
    by (simp add: DEFAULT_PROFILE_NAME_def demo_config_def)
  have pd: "profile_dir ''/home/user/.local/share/demo/ChromeProfiles/Demo_profile'' ''Demo_profile'' 1700000000
             = ''/home/user/.local/share/demo/ChromeProfiles/Demo_profile/Demo_profile_1700000000''"
    by (simp add: profile_dir_def path_join_def is_absolute_def show_int_demo_stamp)
  show ?thesis
    using pe
    by (simp add: create_driver_def demo_chrome_paths demo_profile_root demo_clock_all nm pd Let_def
        then_do_def time_time_def command_def page_driver_def)
qed

lemma demo_enter:
  fixes w :: "nat world"
  assumes "fsys w = fsys installed_world"
  shows "managed_driver_enter demo_host (page_driver present labels) demo_config (ChromeDriverManager demo_host) None k w
     = (Inr (Some (browser w)),
        w\<lparr>mgr_keep_open := Some k,
          out := out w @ [''[INFO] Launching Chrome with profile: Demo_profile...''],
          tick := Suc (tick w), browser := Suc (browser w),
          calls := calls w @ [EvChrome ''/home/user/.local/share/demo/ChromeForTesting/chromedriver-linux64/chromedriver''
             (build_options (ChromeDriverManager demo_host)
                ''/home/user/.local/share/demo/ChromeForTesting/chrome-linux64/chrome''
                ''/home/user/.local/share/demo/ChromeProfiles/Demo_profile/Demo_profile_1700000000'' False)]\<rparr>)"
proof -
  have nm: "DEFAULT_PROFILE_NAME demo_config = ''Demo_profile''"
    by (simp add: DEFAULT_PROFILE_NAME_def demo_config_def)
  let ?wp = "w\<lparr>mgr_keep_open := Some k, out := out w @ [''[INFO] Launching Chrome with profile: Demo_profile...'']\<rparr>"
  have f: "fsys ?wp = fsys installed_world" using assms by simp
  show ?thesis
    using demo_create_driver [OF f, of present labels]
    by (simp add: managed_driver_enter_def cm_enter_def managed_driver_start_def Let_def then_do_def
        print_def nm)
qed

lemma exit_left_open:
  "mgr_keep_open w = Some True \<Longrightarrow>
   managed_driver_exit D (Some d) None w
     = (Inr False, w\<lparr>out := out w @ [''[INFO] Chrome left open for manual inspection.'']\<rparr>)"
  by (simp add: managed_driver_exit_def cm_exit_def managed_driver_next_def managed_driver_try_def
      try_finally_def try_except_def then_do_def ret_def cleanup_def getattr_keep_open_def print_def)

text \<open>
  A block entered with \<open>keep_open\<close> false on the host where the browser is
  installed: the driver is session 0, and leaving the block quits session 0.
\<close>

theorem managed_driver_exit_quits_witness:
  "fst (managed_driver_enter demo_host (page_driver (\<lambda>l. True) []) demo_config
          (ChromeDriverManager demo_host) None False installed_world) = Inr (Some 0)
   \<and> quits (calls (snd (managed_driver_exit (page_driver (\<lambda>l. True) []) (Some 0) None
        (snd (managed_driver_enter demo_host (page_driver (\<lambda>l. True) []) demo_config
                (ChromeDriverManager demo_host) None False installed_world))))) = [0]"
proof -
  let ?D = "page_driver (\<lambda>l. True) []"
  let ?en = "managed_driver_enter demo_host ?D demo_config (ChromeDriverManager demo_host) None False installed_world"
  have b0: "browser installed_world = 0" "calls installed_world = []"
    by (simp_all add: installed_world_def empty_world_def)
  have f: "fst ?en = Inr (Some 0)"
    using demo_enter [of installed_world "\<lambda>l. True" "[]" False] b0 by simp
  have e: "?en = (Inr (Some 0), snd ?en)"
    using f by (metis prod.collapse)
  have c: "quits (calls (snd ?en)) = []"
    using demo_enter [of installed_world "\<lambda>l. True" "[]" False] b0 by simp
  from managed_driver_exit_quits [OF e refl, of None]
  have q: "calls (snd (managed_driver_exit ?D (Some 0) None (snd ?en))) = calls (snd ?en) @ [EvQuit 0]"
    by simp
  have app: "quits (xs @ [EvQuit 0]) = quits xs @ [0]" for xs
    by (induction xs rule: quits.induct) simp_all
  have "quits (calls (snd (managed_driver_exit ?D (Some 0) None (snd ?en)))) = [0]"
    by (simp only: q app c append_Nil)
  with f show ?thesis by blast
qed

text \<open>
  The claim as written fails when a second session is opened on the same manager
  inside the block. The outer block is entered with \<open>keep_open\<close> false and creates
  session 0, the inner one with \<open>keep_open\<close> true creates session 1 and overwrites
  the attribute; both blocks are left normally and no \<open>quit\<close> is issued for either
  session.
\<close>

theorem managed_driver_nested_keeps_open:
  "fst (managed_driver demo_host (page_driver (\<lambda>l. True) []) demo_config (ChromeDriverManager demo_host)
          None False
          (\<lambda>outer. managed_driver demo_host (page_driver (\<lambda>l. True) []) demo_config
                      (ChromeDriverManager demo_host) None True (\<lambda>inner. ret (outer, inner)))
          installed_world) = Inr (Some (Some (Some 0, Some 1)))
   \<and> quits (calls (snd
        (managed_driver demo_host (page_driver (\<lambda>l. True) []) demo_config (ChromeDriverManager demo_host)
          None False
          (\<lambda>outer. managed_driver demo_host (page_driver (\<lambda>l. True) []) demo_config
                      (ChromeDriverManager demo_host) None True (\<lambda>inner. ret (outer, inner)))
          installed_world))) = []"
proof -
  have b0: "browser installed_world = 0" "calls installed_world = []" "tick installed_world = 0"
    "out installed_world = []"
    by (simp_all add: installed_world_def empty_world_def)
  show ?thesis
    by (simp add: managed_driver_def with_stmt_def demo_enter exit_left_open ret_def b0)
qed

text \<open>
  Claim C2. On a host where the browser binary is missing, the generator of
  \<open>managed_driver\<close> catches the \<open>FileNotFoundError\<close> and prints that a required
  file was not found, but it then ends without a \<open>yield\<close>: entering the block
  raises \<open>RuntimeError\<close> instead of handing the caller a null handle, so the test
  \<open>if not driver\<close> of \<open>run_youtube_demo\<close> is never reached. The orchestrator still
  completes without a driver command, through its handler for \<open>Exception\<close>.
\<close>

theorem managed_driver_missing_binary:
  "fst (managed_driver_enter demo_host (page_driver (\<lambda>l. True) []) demo_config
          (ChromeDriverManager demo_host) None False root_world)
     = Inl (RuntimeError ''generator didn't yield'')
   \<and> out (snd (managed_driver_enter demo_host (page_driver (\<lambda>l. True) []) demo_config
          (ChromeDriverManager demo_host) None False root_world))
     = [''[INFO] Launching Chrome with profile: Demo_profile...'',
        CHR 0x0A # ''[ERROR] Required file not found: Chrome binary not found at: /home/user/.local/share/demo/ChromeForTesting/chrome-linux64/chrome'',
        ''[INFO] Please run '' @ [CHR 0x27] @ ''Install Chrome for Testing'' @ [CHR 0x27] @ '' in PySeed Manager.'']
   \<and> fst (run_youtube_demo demo_lib demo_host (page_driver (\<lambda>l. True) []) demo_config
            (MainApplication demo_host) root_world) = Inr ()
   \<and> calls (snd (run_youtube_demo demo_lib demo_host (page_driver (\<lambda>l. True) []) demo_config
            (MainApplication demo_host) root_world)) = []
   \<and> last (out (snd (run_youtube_demo demo_lib demo_host (page_driver (\<lambda>l. True) []) demo_config
            (MainApplication demo_host) root_world)))
     = CHR 0x0A # ''[ERROR] Application error: generator didn't yield''"
proof -
  let ?D = "page_driver (\<lambda>l. True) []"
  let ?M = "ChromeDriverManager demo_host"
  have nm: "DEFAULT_PROFILE_NAME demo_config = ''Demo_profile''"
    by (simp add: DEFAULT_PROFILE_NAME_def demo_config_def)
  have cd: "create_driver demo_host ?D demo_config ?M None False w
              = (Inl (FileNotFoundError (''Chrome binary not found at: /home/user/.local/share/demo/ChromeForTesting/chrome-linux64/chrome'')), w)"
    if "fsys w = fsys root_world" for w :: "nat world"
    using that
    by (simp add: create_driver_def demo_chrome_paths path_exists_def root_world_def empty_world_def
        empty_fs_def Let_def)
  have en: "managed_driver_enter demo_host ?D demo_config ?M None False w
             = (Inl (RuntimeError ''generator didn't yield''),
                w\<lparr>mgr_keep_open := Some False,
                  out := out w @ [''[INFO] Launching Chrome with profile: Demo_profile...'',
        CHR 0x0A # ''[ERROR] Required file not found: Chrome binary not found at: /home/user/.local/share/demo/ChromeForTesting/chrome-linux64/chrome'',
        ''[INFO] Please run '' @ [CHR 0x27] @ ''Install Chrome for Testing'' @ [CHR 0x27] @ '' in PySeed Manager.'']\<rparr>)"
    if "fsys w = fsys root_world" for w :: "nat world"
    using that
    by (simp add: managed_driver_enter_def cm_enter_def managed_driver_start_def Let_def then_do_def
        print_def nm cd managed_driver_try_def try_finally_def try_except_def raise_def cleanup_def ret_def)
  have r0: "out root_world = []" "calls root_world = []"
    by (simp_all add: root_world_def empty_world_def)
  have m: "chrome_manager (MainApplication demo_host) = ?M"
    by (simp add: MainApplication_def)
  show ?thesis
    by (simp add: en r0 m run_youtube_demo_def managed_driver_def with_stmt_def then_do_def print_def
        try_except_def Let_def)
qed

end
